theory Spec2Isabelle
  imports Complex_Main
begin

section \<open>Python strings as sequences of code points\<close>

text \<open>
  A Python \<open>str\<close> is a sequence of Unicode code points and \<open>len\<close> counts code points,
  so a string is modelled as the list of its code point numbers.  \<open>lit\<close> embeds an ASCII
  literal; the few non-ASCII characters of the source's literals are written as numbers.
\<close>

type_synonym pystr = "nat list"

definition lit :: "string \<Rightarrow> pystr" where
  "lit s = map of_char s"

text \<open>
  \<open>str.isspace\<close> on one character.  The same set is what \<open>\s\<close> matches in a \<open>str\<close>
  pattern and what \<open>str.strip()\<close> removes: U+0009..U+000D, U+001C..U+0020, U+0085,
  U+00A0, U+1680, U+2000..U+200A, U+2028, U+2029, U+202F, U+205F, U+3000.
\<close>

definition py_isspace :: "nat \<Rightarrow> bool" where
  "py_isspace c \<longleftrightarrow>
     (9 \<le> c \<and> c \<le> 13) \<or> (28 \<le> c \<and> c \<le> 32) \<or> c = 133 \<or> c = 160 \<or> c = 5760 \<or>
     (8192 \<le> c \<and> c \<le> 8202) \<or> c = 8232 \<or> c = 8233 \<or> c = 8239 \<or> c = 8287 \<or> c = 12288"

definition strip_where :: "(nat \<Rightarrow> bool) \<Rightarrow> pystr \<Rightarrow> pystr" where
  "strip_where P s = rev (dropWhile P (rev (dropWhile P s)))"

text \<open>\<open>s.strip()\<close> and \<open>s.strip(chars)\<close>.\<close>

definition py_strip :: "pystr \<Rightarrow> pystr" where
  "py_strip s = strip_where py_isspace s"

definition py_strip_chars :: "pystr \<Rightarrow> pystr \<Rightarrow> pystr" where
  "py_strip_chars chars s = strip_where (\<lambda>c. c \<in> set chars) s"

text \<open>
  \<open>s.lower()\<close>.  ASCII and Latin-1 capitals move by 32.  Exactly two code points
  outside ASCII have a lower-case form that contains an ASCII letter: U+0130 (giving
  \<open>i\<close> followed by U+0307) and the Kelvin sign U+212A (giving \<open>k\<close>).  Every other
  code point is left as it is; the source only ever searches the lowered text for ASCII
  words, which cannot tell the difference.
\<close>

definition lower_char :: "nat \<Rightarrow> pystr" where
  "lower_char c =
     (if 65 \<le> c \<and> c \<le> 90 then [c + 32]
      else if 192 \<le> c \<and> c \<le> 222 \<and> c \<noteq> 215 then [c + 32]
      else if c = 304 then [105, 775]
      else if c = 8490 then [107]
      else [c])"

definition py_lower :: "pystr \<Rightarrow> pystr" where
  "py_lower s = concat (map lower_char s)"

text \<open>
  \<open>s.title()\<close>: a letter that follows a letter is lowered, any other letter is raised.
  The source applies it to the ASCII labels of the city table and to the fallback label
  only, so letters are the ASCII letters here.
\<close>

definition is_ascii_letter :: "nat \<Rightarrow> bool" where
  "is_ascii_letter c \<longleftrightarrow> (65 \<le> c \<and> c \<le> 90) \<or> (97 \<le> c \<and> c \<le> 122)"

fun title_from :: "bool \<Rightarrow> pystr \<Rightarrow> pystr" where
  "title_from prev [] = []"
| "title_from prev (c # cs) =
     (if is_ascii_letter c
      then (if prev then (if c \<le> 90 then c + 32 else c)
            else (if 97 \<le> c then c - 32 else c)) # title_from True cs
      else c # title_from False cs)"

definition py_title :: "pystr \<Rightarrow> pystr" where
  "py_title s = title_from False s"

text \<open>\<open>needle in hay\<close> for two strings: \<open>needle\<close> occurs as a contiguous block.\<close>

definition starts_with :: "pystr \<Rightarrow> pystr \<Rightarrow> bool" where
  "starts_with needle hay \<longleftrightarrow> take (length needle) hay = needle"

fun py_in :: "pystr \<Rightarrow> pystr \<Rightarrow> bool" where
  "py_in needle [] = (needle = [])"
| "py_in needle (c # cs) = (starts_with needle (c # cs) \<or> py_in needle cs)"

text \<open>\<open>sep.join(parts)\<close>.\<close>

fun py_join :: "pystr \<Rightarrow> pystr list \<Rightarrow> pystr" where
  "py_join sep [] = []"
| "py_join sep [p] = p"
| "py_join sep (p # q # ps) = p @ sep @ py_join sep (q # ps)"

text \<open>\<open>str(n)\<close> for an integer: decimal digits, a minus sign for a negative number.\<close>

fun nat_digits :: "nat \<Rightarrow> pystr" where
  "nat_digits n = (if n < 10 then [48 + n] else nat_digits (n div 10) @ [48 + n mod 10])"

declare nat_digits.simps [simp del]

definition str_int :: "int \<Rightarrow> pystr" where
  "str_int i = (if i < 0 then 45 # nat_digits (nat (- i)) else nat_digits (nat i))"

section \<open>The host: parser, numbers, clock\<close>

text \<open>
  The source runs on a Python host.  What it takes from the host and what cannot be
  computed from the source alone is collected in a record that every function of the
  model receives: \<open>ast.parse\<close>, binary64 arithmetic (the type \<open>'f\<close> stands for the host's
  \<open>float\<close>), the Unicode database's digits beyond ASCII, the text of the host's exception
  messages and the clock.  Theorems that quantify over the host hold for every host.

  Exceptions are values: the class and the text that \<open>str(e)\<close> gives.  Resource limits of
  the host (memory, recursion depth, the optional cap on the number of digits in
  conversions between \<open>int\<close> and \<open>str\<close>) are outside the model; integers are unbounded.
\<close>

datatype exc_class =
  ValueError | ZeroDivisionError | OverflowError | SyntaxError | TypeError | OtherException

datatype pyexc = Raise exc_class pystr

fun exc_text :: "pyexc \<Rightarrow> pystr" where
  "exc_text (Raise cls msg) = msg"

text \<open>The node classes of the \<open>ast\<close> module that the parser can return for an expression.\<close>

datatype binop =
  Add | Sub | Mult | Div | FloorDiv | Mod | Pow_op | MatMult | LShift | RShift | BitOr | BitXor | BitAnd

datatype unaryop = USub | UAdd | Not_op | Invert

datatype 'f pyconst =
  CInt int | CFloat 'f | CComplex 'f 'f | CBool bool | CStr pystr | CBytes | CNone | CEllipsis

text \<open>
  \<open>OtherNode\<close> stands for every node class the evaluator has no case for (\<open>Call\<close>,
  \<open>Compare\<close>, \<open>Attribute\<close>, \<open>IfExp\<close>, ...), tagged with the class name.  The evaluator
  never looks inside such a node.
\<close>

datatype 'f node =
    Expression "'f node"
  | Constant "'f pyconst"
  | BinOp "'f node" binop "'f node"
  | UnaryOp unaryop "'f node"
  | Name pystr
  | OtherNode pystr

datatype 'f pyval = VBool bool | VInt int | VFloat 'f | VComplex 'f 'f

text \<open>The functions of the \<open>operator\<close> module that the source uses.\<close>

datatype operator_fn = op_add | op_sub | op_mul | op_truediv | op_floordiv | op_mod | op_pow

datatype unary_fn = op_neg | op_pos

record 'f host =
  ast_parse :: "pystr \<Rightarrow> pyexc + 'f node"
    \<comment> \<open>\<open>ast.parse(expr, mode="eval")\<close>\<close>
  uni_decimal :: "nat \<Rightarrow> nat option"
    \<comment> \<open>the decimal digit value of a code point from 128 on (Unicode category Nd)\<close>
  uni_other_digit :: "nat \<Rightarrow> bool"
    \<comment> \<open>code points from 128 on for which \<open>isdigit\<close> holds though they are no decimals\<close>
  float_of_int :: "int \<Rightarrow> pyexc + 'f"
    \<comment> \<open>conversion of an \<open>int\<close> operand; OverflowError when it is too large\<close>
  float_arith :: "operator_fn \<Rightarrow> 'f \<Rightarrow> 'f \<Rightarrow> 'f"
    \<comment> \<open>binary64 \<open>+ - * / // %\<close>, the divisor not zero for the last three\<close>
  float_neg :: "'f \<Rightarrow> 'f"
  float_is_zero :: "'f \<Rightarrow> bool"
    \<comment> \<open>\<open>x == 0.0\<close>\<close>
  float_pow :: "'f \<Rightarrow> 'f \<Rightarrow> pyexc + 'f pyval"
    \<comment> \<open>\<open>x ** y\<close>: a float, a complex, ZeroDivisionError or OverflowError\<close>
  int_truediv :: "int \<Rightarrow> int \<Rightarrow> pyexc + 'f"
    \<comment> \<open>\<open>a / b\<close> for integers, \<open>b\<close> not zero; OverflowError when the quotient is too large\<close>
  complex_arith :: "operator_fn \<Rightarrow> 'f pyval \<Rightarrow> 'f pyval \<Rightarrow> pyexc + 'f pyval"
    \<comment> \<open>any binary operator with at least one complex operand\<close>
  float_round :: "'f \<Rightarrow> pyexc + int"
    \<comment> \<open>\<open>round(x)\<close>; OverflowError for an infinity, ValueError for a NaN\<close>
  float_near :: "'f \<Rightarrow> int \<Rightarrow> bool"
    \<comment> \<open>\<open>abs(x - n) < 1e-12\<close>\<close>
  float_str :: "'f \<Rightarrow> pystr"
  complex_str :: "'f \<Rightarrow> 'f \<Rightarrow> pystr"
  zero_division_text :: "operator_fn \<Rightarrow> bool \<Rightarrow> pystr"
    \<comment> \<open>the message of ZeroDivisionError for an operator, on floats when the flag is set\<close>
  invalid_int_text :: "pystr \<Rightarrow> pystr"
    \<comment> \<open>the message of the ValueError that \<open>int(s)\<close> raises\<close>
  zoneinfo_available :: bool
    \<comment> \<open>whether \<open>from zoneinfo import ZoneInfo\<close> succeeded\<close>
  now_in :: "pystr \<Rightarrow> pyexc + pystr"
    \<comment> \<open>\<open>datetime.now(ZoneInfo(tz)).strftime("%Y-%m-%d %H:%M:%S (%Z)")\<close>, the clock held
        fixed during one turn\<close>

section \<open>Arithmetic of the host on the evaluator's values\<close>

text \<open>
  The operators follow the Python language reference.  A \<open>bool\<close> operand counts as the
  integer 0 or 1.  Two integers are computed exactly; \<open>//\<close> and \<open>%\<close> floor, as \<open>div\<close> and
  \<open>mod\<close> on \<open>int\<close> do; a negative integer exponent goes through floats.  When one
  operand is a float the other is converted first (left operand, then right), and only
  then is a zero divisor detected.
\<close>

fun as_int :: "'f pyval \<Rightarrow> int option" where
  "as_int (VBool b) = Some (if b then 1 else 0)"
| "as_int (VInt i) = Some i"
| "as_int (VFloat x) = None"
| "as_int (VComplex re im) = None"

fun is_complex :: "'f pyval \<Rightarrow> bool" where
  "is_complex (VComplex re im) = True"
| "is_complex v = False"

fun to_float :: "'f host \<Rightarrow> 'f pyval \<Rightarrow> pyexc + 'f" where
  "to_float h (VFloat x) = Inr x"
| "to_float h (VInt i) = float_of_int h i"
| "to_float h (VBool b) = float_of_int h (if b then 1 else 0)"
| "to_float h (VComplex re im) = Inl (Raise TypeError [])"
  \<comment> \<open>not reached: \<open>apply_binary\<close> hands complex operands to the host\<close>

definition divides :: "operator_fn \<Rightarrow> bool" where
  "divides f \<longleftrightarrow> f = op_truediv \<or> f = op_floordiv \<or> f = op_mod"

definition float_binop :: "'f host \<Rightarrow> operator_fn \<Rightarrow> 'f \<Rightarrow> 'f \<Rightarrow> pyexc + 'f pyval" where
  "float_binop h f x y =
     (if f = op_pow then float_pow h x y
      else if divides f \<and> float_is_zero h y
        then Inl (Raise ZeroDivisionError (zero_division_text h f True))
      else Inr (VFloat (float_arith h f x y)))"

definition via_floats :: "'f host \<Rightarrow> operator_fn \<Rightarrow> 'f pyval \<Rightarrow> 'f pyval \<Rightarrow> pyexc + 'f pyval" where
  "via_floats h f a b =
     (case to_float h a of
        Inl e \<Rightarrow> Inl e
      | Inr x \<Rightarrow> (case to_float h b of Inl e \<Rightarrow> Inl e | Inr y \<Rightarrow> float_binop h f x y))"

definition int_binop :: "'f host \<Rightarrow> operator_fn \<Rightarrow> int \<Rightarrow> int \<Rightarrow> pyexc + 'f pyval" where
  "int_binop h f i j =
     (case f of
        op_add \<Rightarrow> Inr (VInt (i + j))
      | op_sub \<Rightarrow> Inr (VInt (i - j))
      | op_mul \<Rightarrow> Inr (VInt (i * j))
      | op_truediv \<Rightarrow>
          (if j = 0 then Inl (Raise ZeroDivisionError (zero_division_text h f False))
           else (case int_truediv h i j of Inl e \<Rightarrow> Inl e | Inr x \<Rightarrow> Inr (VFloat x)))
      | op_floordiv \<Rightarrow>
          (if j = 0 then Inl (Raise ZeroDivisionError (zero_division_text h f False))
           else Inr (VInt (i div j)))
      | op_mod \<Rightarrow>
          (if j = 0 then Inl (Raise ZeroDivisionError (zero_division_text h f False))
           else Inr (VInt (i mod j)))
      | op_pow \<Rightarrow>
          (if 0 \<le> j then Inr (VInt (i ^ nat j)) else via_floats h f (VInt i) (VInt j)))"

definition apply_binary :: "'f host \<Rightarrow> operator_fn \<Rightarrow> 'f pyval \<Rightarrow> 'f pyval \<Rightarrow> pyexc + 'f pyval" where
  "apply_binary h f a b =
     (if is_complex a \<or> is_complex b then complex_arith h f a b
      else (case (as_int a, as_int b) of
              (Some i, Some j) \<Rightarrow> int_binop h f i j
            | _ \<Rightarrow> via_floats h f a b))"

fun apply_unary :: "'f host \<Rightarrow> unary_fn \<Rightarrow> 'f pyval \<Rightarrow> pyexc + 'f pyval" where
  "apply_unary h op_neg (VBool b) = Inr (VInt (if b then - 1 else 0))"
| "apply_unary h op_neg (VInt i) = Inr (VInt (- i))"
| "apply_unary h op_neg (VFloat x) = Inr (VFloat (float_neg h x))"
| "apply_unary h op_neg (VComplex re im) = Inr (VComplex (float_neg h re) (float_neg h im))"
| "apply_unary h op_pos (VBool b) = Inr (VInt (if b then 1 else 0))"
| "apply_unary h op_pos v = Inr v"

text \<open>\<open>str(val)\<close> for a value of the evaluator.\<close>

fun py_str :: "'f host \<Rightarrow> 'f pyval \<Rightarrow> pystr" where
  "py_str h (VBool b) = (if b then lit ''True'' else lit ''False'')"
| "py_str h (VInt i) = str_int i"
| "py_str h (VFloat x) = float_str h x"
| "py_str h (VComplex re im) = complex_str h re im"

section \<open>The calculator: \<open>safe_calc\<close> (dashboard.py, lines 33-43 and 61-86)\<close>

text \<open>
  \<open>_ALLOWED_OPS\<close> is a dictionary from operator classes to functions.  A \<open>BinOp\<close> node
  carries a binary operator class and a \<open>UnaryOp\<close> node a unary one, so the dictionary is
  read through one map for each.
\<close>

fun ALLOWED_OPS :: "binop \<Rightarrow> operator_fn option" where
  "ALLOWED_OPS Add = Some op_add"
| "ALLOWED_OPS Sub = Some op_sub"
| "ALLOWED_OPS Mult = Some op_mul"
| "ALLOWED_OPS Div = Some op_truediv"
| "ALLOWED_OPS FloorDiv = Some op_floordiv"
| "ALLOWED_OPS Mod = Some op_mod"
| "ALLOWED_OPS Pow_op = Some op_pow"
| "ALLOWED_OPS other = None"

fun ALLOWED_UNARY_OPS :: "unaryop \<Rightarrow> unary_fn option" where
  "ALLOWED_UNARY_OPS USub = Some op_neg"
| "ALLOWED_UNARY_OPS UAdd = Some op_pos"
| "ALLOWED_UNARY_OPS other = None"

definition unsupported :: pyexc where
  "unsupported = Raise ValueError (lit ''Unsupported expression.'')"

text \<open>
  \<open>_eval\<close>.  A constant is returned when its value is an \<open>int\<close> or a \<open>float\<close>; \<open>bool\<close> is
  a subclass of \<open>int\<close>, so \<open>True\<close> and \<open>False\<close> pass this test.  The \<open>ast.Num\<close> test that
  follows holds for the remaining numeric constants, the complex ones.  The operands of
  a binary operator are evaluated left to right before the operator is applied.
\<close>

fun eval :: "'f host \<Rightarrow> 'f node \<Rightarrow> pyexc + 'f pyval" where
  "eval h (Expression body) = eval h body"
| "eval h (Constant (CInt i)) = Inr (VInt i)"
| "eval h (Constant (CFloat x)) = Inr (VFloat x)"
| "eval h (Constant (CBool b)) = Inr (VBool b)"
| "eval h (Constant (CComplex re im)) = Inr (VComplex re im)"
| "eval h (Constant c) = Inl unsupported"
| "eval h (BinOp left opr right) =
     (case ALLOWED_OPS opr of
        None \<Rightarrow> Inl unsupported
      | Some f \<Rightarrow>
          (case eval h left of
             Inl e \<Rightarrow> Inl e
           | Inr a \<Rightarrow> (case eval h right of Inl e \<Rightarrow> Inl e | Inr b \<Rightarrow> apply_binary h f a b)))"
| "eval h (UnaryOp opr operand) =
     (case ALLOWED_UNARY_OPS opr of
        None \<Rightarrow> Inl unsupported
      | Some f \<Rightarrow> (case eval h operand of Inl e \<Rightarrow> Inl e | Inr a \<Rightarrow> apply_unary h f a))"
| "eval h (Name ident) = Inl unsupported"
| "eval h (OtherNode cls) = Inl unsupported"

text \<open>
  The pretty formatting of lines 82-83: a float within \<open>1e-12\<close> of \<open>round(val)\<close> is
  replaced by that integer.  \<open>round\<close> itself can raise.
\<close>

fun pretty :: "'f host \<Rightarrow> 'f pyval \<Rightarrow> pyexc + 'f pyval" where
  "pretty h (VFloat x) =
     (case float_round h x of
        Inl e \<Rightarrow> Inl e
      | Inr n \<Rightarrow> if float_near h x n then Inr (VInt n) else Inr (VFloat x))"
| "pretty h v = Inr v"

text \<open>
  What one call of \<open>safe_calc\<close> comes to, before it is turned into text: the early
  return for a long expression, an exception caught by \<open>except Exception\<close>, or a value.
\<close>

datatype 'f calc_outcome = TooLong | Failed pyexc | Value "'f pyval"

definition calc_outcome :: "'f host \<Rightarrow> pystr \<Rightarrow> 'f calc_outcome" where
  "calc_outcome h expr0 =
     (let expr = py_strip expr0 in
      if length expr > 200 then TooLong
      else (case ast_parse h expr of
              Inl e \<Rightarrow> Failed e
            | Inr tree \<Rightarrow>
                (case eval h tree of
                   Inl e \<Rightarrow> Failed e
                 | Inr val \<Rightarrow> (case pretty h val of Inl e \<Rightarrow> Failed e | Inr v \<Rightarrow> Value v))))"

fun render_outcome :: "'f host \<Rightarrow> 'f calc_outcome \<Rightarrow> pystr" where
  "render_outcome h TooLong = lit ''Expression too long.''"
| "render_outcome h (Failed e) = lit ''Could not evaluate: '' @ exc_text e"
| "render_outcome h (Value v) = py_str h v"

definition safe_calc :: "'f host \<Rightarrow> pystr \<Rightarrow> pystr" where
  "safe_calc h expr = render_outcome h (calc_outcome h expr)"

section \<open>The crewAI tools (custom_tool.py)\<close>

text \<open>
  \<open>int(s)\<close> for a string: white space around the number is skipped, one sign may come
  first, then decimal digits, with single underscores allowed between digits.  A digit
  may be any Unicode decimal.  The white space of \<open>int\<close> is the ASCII white space and the
  Unicode white space from U+0085 on; U+001C..U+001F are not skipped.
\<close>

definition digit_value :: "'f host \<Rightarrow> nat \<Rightarrow> nat option" where
  "digit_value h c =
     (if 48 \<le> c \<and> c \<le> 57 then Some (c - 48) else if c < 128 then None else uni_decimal h c)"







section \<open>Extraction heuristics (dashboard.py, lines 45-58 and 121-141)\<close>

text \<open>
  \<open>_MATH_RE\<close> is \<open>[-+*/().\d\s]{3,}\<close>.  \<open>\d\<close> matches every Unicode decimal and
  \<open>str.isdigit\<close> holds for these and a few more characters.
\<close>

definition py_isdecimal :: "'f host \<Rightarrow> nat \<Rightarrow> bool" where
  "py_isdecimal h c \<longleftrightarrow> digit_value h c \<noteq> None"

definition py_isdigit :: "'f host \<Rightarrow> nat \<Rightarrow> bool" where
  "py_isdigit h c \<longleftrightarrow> py_isdecimal h c \<or> (128 \<le> c \<and> uni_other_digit h c)"

definition MATH_RE_class :: "'f host \<Rightarrow> nat \<Rightarrow> bool" where
  "MATH_RE_class h c \<longleftrightarrow> List.member (lit ''-+*/().'') c \<or> py_isdecimal h c \<or> py_isspace c"

text \<open>
  \<open>_MATH_RE.finditer(text)\<close>: the scan tries each position from the left; the greedy
  repetition takes every class character that follows, and matches when there are at
  least three; the scan goes on behind a match, or one character further when there is
  none.
\<close>

function MATH_RE_finditer :: "'f host \<Rightarrow> pystr \<Rightarrow> pystr list" where
  "MATH_RE_finditer h [] = []"
| "MATH_RE_finditer h (c # cs) =
     (let run = takeWhile (MATH_RE_class h) (c # cs) in
      if 3 \<le> length run
      then run # MATH_RE_finditer h (drop (length run) (c # cs))
      else MATH_RE_finditer h cs)"
  by pat_completeness auto
termination
  by (relation "measure (\<lambda>(h, s). length s)") auto

definition looks_like_math :: "'f host \<Rightarrow> pystr \<Rightarrow> bool" where
  "looks_like_math h c \<longleftrightarrow>
     list_ex (py_isdigit h) c \<and> list_ex (\<lambda>opch. List.member c opch) (lit ''+-*/'')"

definition extract_math_expression :: "'f host \<Rightarrow> pystr \<Rightarrow> pystr option" where
  "extract_math_expression h text =
     (let candidates = map py_strip (MATH_RE_finditer h text) in
      case List.find (looks_like_math h) candidates of
        None \<Rightarrow> None
      | Some c \<Rightarrow> Some (py_strip_chars (lit '' .,:;!?'') c))"

definition CITY_TZ :: "(pystr \<times> pystr) list" where
  "CITY_TZ =
     [(lit ''johannesburg'', lit ''Africa/Johannesburg''),
      (lit ''cape town'', lit ''Africa/Johannesburg''),
      (lit ''durban'', lit ''Africa/Johannesburg''),
      (lit ''london'', lit ''Europe/London''),
      (lit ''paris'', lit ''Europe/Paris''),
      (lit ''berlin'', lit ''Europe/Berlin''),
      (lit ''new york'', lit ''America/New_York''),
      (lit ''san francisco'', lit ''America/Los_Angeles''),
      (lit ''los angeles'', lit ''America/Los_Angeles''),
      (lit ''tokyo'', lit ''Asia/Tokyo''),
      (lit ''singapore'', lit ''Asia/Singapore''),
      (lit ''sydney'', lit ''Australia/Sydney'')]"

definition mentions_time :: "pystr \<Rightarrow> bool" where
  "mentions_time lower \<longleftrightarrow> py_in (lit ''time'') lower \<or> py_in (lit ''date'') lower"

definition find_requested_timezones :: "pystr \<Rightarrow> pystr \<Rightarrow> (pystr \<times> pystr) list" where
  "find_requested_timezones text default_tz =
     (let lower = py_lower text;
          hits = (if mentions_time lower
                  then foldl (\<lambda>hits (city, tz). if py_in city lower then hits @ [(city, tz)] else hits)
                         [] CITY_TZ
                  else [])
      in if hits = [] \<and> mentions_time lower
         then hits @ [(lit ''your timezone'', default_tz)]
         else hits)"

section \<open>The tools of the dispatcher (dashboard.py, lines 89-108)\<close>

text \<open>\<open>get_time\<close>: every exception of the clock lookup is turned into text.\<close>

definition get_time :: "'f host \<Rightarrow> pystr \<Rightarrow> pystr" where
  "get_time h tz_name =
     (if \<not> zoneinfo_available h then lit ''Timezone support unavailable (need Python 3.9+).''
      else (case now_in h tz_name of
              Inr now \<Rightarrow> now
            | Inl e \<Rightarrow>
                lit ''Could not get time for '' @ [39] @ tz_name @ [39] @ lit '': '' @ exc_text e))"

text \<open>
  \<open>make_plan\<close> of the Gradio front end.  The literals hold U+2013 (8211, an en dash),
  U+2192 (8594, an arrow) and U+2019 (8217, an apostrophe).
\<close>

definition make_plan :: "pystr \<Rightarrow> pystr" where
  "make_plan goal =
     (let bullets =
     [
      lit ''Clarify the goal + success criteria (1'' @ [8211] @ lit ''2 sentences).'',
      lit ''List the smallest demo-able user flow (3'' @ [8211] @ lit ''5 steps).'',
      lit ''Pick 1'' @ [8211] @ lit ''2 tools/APIs (or mock them) to support the flow.'',
      lit ''Build the UI skeleton first (inputs, buttons, results).'',
      lit ''Wire the agent loop (decide '' @ [8594] @ lit '' tool '' @ [8594] @ lit '' observe '' @ [8594] @ lit '' answer).'',
      lit ''Add a short '' @ [39] @ lit ''demo script'' @ [39] @ lit '' and 2'' @ [8211] @ lit ''3 example prompts.'']
      in lit ''Here'' @ [8217] @ lit ''s a quick plan:'' @ [10] @
         py_join [10] (map (\<lambda>b. lit ''- '' @ b) bullets))"

section \<open>The dispatcher: \<open>run_agent\<close> (gradio/dashboard.py, lines 114-174)\<close>

record ToolStep =
  tool :: pystr
  input :: pystr
  result :: pystr

definition PLAN_WORDS :: "pystr list" where
  "PLAN_WORDS = [lit ''plan'', lit ''steps'', lit ''checklist'', lit ''todo'', lit ''to-do'']"

definition help_message :: pystr where
  "help_message =
     lit ''I'' @ [8217] @
     lit ''m a tiny agent demo. I can use tools like **calculator**, **time lookup**, and a **planner**.'' @
     [10, 10] @ lit ''Try:'' @ [10] @
     lit ''- `What time is it in Tokyo and London?`'' @ [10] @
     lit ''- `What is (12*7)/3?`'' @ [10] @
     lit ''- `Give me a plan to demo an agentic model in 24 hours`''"

text \<open>
  \<open>time_turn\<close> is the body of the loop over the requested time zones; \<open>run_agent\<close>
  threads the two lists \<open>steps\<close> and \<open>parts\<close> through the three stages.  The first
  literal of a clock section is U+1F552 (128338), of a calculator section U+1F9EE
  (129518).  \<open>if expr:\<close> is false for \<open>None\<close> and for the empty string.
\<close>

definition time_turn ::
  "'f host \<Rightarrow> ToolStep list \<times> pystr list \<Rightarrow> pystr \<times> pystr \<Rightarrow> ToolStep list \<times> pystr list" where
  "time_turn h acc hit =
     (case (acc, hit) of
        ((steps, parts), (city, tz)) \<Rightarrow>
          (let r = get_time h tz in
           (steps @ [\<lparr>tool = lit ''get_time'', input = tz, result = r\<rparr>],
            parts @ [[128338] @ lit '' **'' @ py_title city @ lit ''**: '' @ r])))"

definition run_agent :: "'f host \<Rightarrow> pystr \<Rightarrow> pystr \<Rightarrow> pystr \<times> ToolStep list" where
  "run_agent h user_text default_tz =
     (let (steps1, parts1) =
            foldl (time_turn h) ([], []) (find_requested_timezones user_text default_tz);
          expr = extract_math_expression h user_text;
          (steps2, parts2) =
            (case expr of
               None \<Rightarrow> (steps1, parts1)
             | Some e \<Rightarrow>
                 if e = [] then (steps1, parts1)
                 else (let r = safe_calc h e in
                       (steps1 @ [\<lparr>tool = lit ''calculator'', input = e, result = r\<rparr>],
                        parts1 @ [[129518] @ lit '' **'' @ e @ lit ''** = `'' @ r @ lit ''`''])));
          lower = py_lower user_text;
          (steps3, parts3) =
            (if list_ex (\<lambda>k. py_in k lower) PLAN_WORDS
             then (let r = make_plan user_text in
                   (steps2 @ [\<lparr>tool = lit ''make_plan'', input = user_text, result = r\<rparr>],
                    parts2 @ [r]))
             else (steps2, parts2));
          parts4 = (if parts3 = [] then parts3 @ [help_message] else parts3)
      in (py_join [10, 10] parts4, steps3))"

section \<open>The copy in the Streamlit front end (streamlit/dashboard.py)\<close>

text \<open>
  In the Streamlit file \<open>safe_calc\<close>, \<open>get_time\<close>, \<open>extract_math_expression\<close> and
  \<open>find_requested_timezones\<close> are the same text as in the Gradio file, comments apart,
  and are modelled by the same definitions.  The string literals of \<open>make_plan\<close> and
  \<open>run_agent\<close> are not the same: where the Gradio file has one character outside ASCII
  the Streamlit file has three or four others (U+201A U+00C4 U+00EC for the en dash,
  U+201A U+00DC U+00ED for the arrow, U+201A U+00C4 U+00F4 for the apostrophe,
  U+F8FF U+00FC U+00EF U+00ED and U+F8FF U+00FC U+00DF U+00C6 for the two pictographs).
\<close>

definition st_make_plan :: "pystr \<Rightarrow> pystr" where
  "st_make_plan goal =
     (let bullets =
     [
      lit ''Clarify the goal + success criteria (1'' @ [8218, 196, 236] @ lit ''2 sentences).'',
      lit ''List the smallest demo-able user flow (3'' @ [8218, 196, 236] @ lit ''5 steps).'',
      lit ''Pick 1'' @ [8218, 196, 236] @ lit ''2 tools/APIs (or mock them) to support the flow.'',
      lit ''Build the UI skeleton first (inputs, buttons, results).'',
      lit ''Wire the agent loop (decide '' @ [8218, 220, 237] @ lit '' tool '' @ [8218, 220, 237] @ lit '' observe '' @ [8218, 220, 237] @ lit '' answer).'',
      lit ''Add a short '' @ [39] @ lit ''demo script'' @ [39] @ lit '' and 2'' @ [8218, 196, 236] @ lit ''3 example prompts.'']
      in lit ''Here'' @ [8218, 196, 244] @ lit ''s a quick plan:'' @ [10] @
         py_join [10] (map (\<lambda>b. lit ''- '' @ b) bullets))"

definition st_help_message :: pystr where
  "st_help_message =
     lit ''I'' @ [8218, 196, 244] @
     lit ''m a tiny agent demo. I can use tools like **calculator**, **time lookup**, and a **planner**.'' @
     [10, 10] @ lit ''Try:'' @ [10] @
     lit ''- `What time is it in Tokyo and London?`'' @ [10] @
     lit ''- `What is (12*7)/3?`'' @ [10] @
     lit ''- `Give me a plan to demo an agentic model in 24 hours`''"

definition st_time_turn ::
  "'f host \<Rightarrow> ToolStep list \<times> pystr list \<Rightarrow> pystr \<times> pystr \<Rightarrow> ToolStep list \<times> pystr list" where
  "st_time_turn h acc hit =
     (case (acc, hit) of
        ((steps, parts), (city, tz)) \<Rightarrow>
          (let r = get_time h tz in
           (steps @ [\<lparr>tool = lit ''get_time'', input = tz, result = r\<rparr>],
            parts @ [[63743, 252, 239, 237] @ lit '' **'' @ py_title city @ lit ''**: '' @ r])))"

definition st_run_agent :: "'f host \<Rightarrow> pystr \<Rightarrow> pystr \<Rightarrow> pystr \<times> ToolStep list" where
  "st_run_agent h user_text default_tz =
     (let (steps1, parts1) =
            foldl (st_time_turn h) ([], []) (find_requested_timezones user_text default_tz);
          expr = extract_math_expression h user_text;
          (steps2, parts2) =
            (case expr of
               None \<Rightarrow> (steps1, parts1)
             | Some e \<Rightarrow>
                 if e = [] then (steps1, parts1)
                 else (let r = safe_calc h e in
                       (steps1 @ [\<lparr>tool = lit ''calculator'', input = e, result = r\<rparr>],
                        parts1 @ [[63743, 252, 223, 198] @ lit '' **'' @ e @ lit ''** = `'' @ r @ lit ''`''])));
          lower = py_lower user_text;
          (steps3, parts3) =
            (if list_ex (\<lambda>k. py_in k lower) PLAN_WORDS
             then (let r = st_make_plan user_text in
                   (steps2 @ [\<lparr>tool = lit ''make_plan'', input = user_text, result = r\<rparr>],
                    parts2 @ [r]))
             else (steps2, parts2));
          parts4 = (if parts3 = [] then parts3 @ [st_help_message] else parts3)
      in (py_join [10, 10] parts4, steps3))"

section \<open>A reference host\<close>

text \<open>
  One host to run the model on.  Its floats are the rational numbers, computed exactly
  (binary64 rounds; the overflow of a conversion from \<open>int\<close> is kept at the binary64
  bound), and its parser covers the arithmetic fragment of the expression grammar:
  decimal integers and point numbers, names, \<open>True\<close>, \<open>False\<close>, \<open>None\<close>, parentheses,
  the prefix operators \<open>+ - ~\<close> and the binary operators \<open>+ - * / // % **\<close> with the
  precedence and associativity of the language reference.  Text outside this fragment
  is reported as a syntax error by this parser.  Messages are those of CPython 3.11.
\<close>

datatype token = TNumber "rat pyconst" | TName pystr | TOp pystr | TBad

definition is_dec :: "nat \<Rightarrow> bool" where
  "is_dec c \<longleftrightarrow> 48 \<le> c \<and> c \<le> 57"

definition is_ident_char :: "nat \<Rightarrow> bool" where
  "is_ident_char c \<longleftrightarrow> is_ascii_letter c \<or> is_dec c \<or> c = 95"

definition digits_value :: "pystr \<Rightarrow> nat" where
  "digits_value ds = foldl (\<lambda>acc d. 10 * acc + (d - 48)) 0 ds"

definition number_token :: "pystr \<Rightarrow> pystr option \<Rightarrow> token" where
  "number_token ip fp =
     (case fp of
        None \<Rightarrow>
          if 1 < length ip \<and> hd ip = 48 \<and> digits_value ip \<noteq> 0 then TBad
          else TNumber (CInt (int (digits_value ip)))
      | Some ds \<Rightarrow>
          TNumber (CFloat (of_nat (digits_value ip) + of_nat (digits_value ds) / 10 ^ length ds)))"

text \<open>
  The scanner and the parser recurse on a list that is only there to bound the number of
  steps: the scanner gets a list one longer than the text, the parser eight entries for
  each token and eight more, which is more than the steps either can take.
\<close>

fun lex :: "pystr \<Rightarrow> pystr \<Rightarrow> token list" where
  "lex [] cs = [TBad]"
| "lex (f # fuel) [] = []"
| "lex (f # fuel) (c # cs) =
     (if c = 32 \<or> c = 9 then lex fuel cs
      else if is_dec c \<or> (c = 46 \<and> cs \<noteq> [] \<and> is_dec (hd cs)) then
        (let ip = takeWhile is_dec (c # cs);
             r1 = dropWhile is_dec (c # cs);
             fp = (if r1 \<noteq> [] \<and> hd r1 = 46 then Some (takeWhile is_dec (tl r1)) else None);
             r2 = (if r1 \<noteq> [] \<and> hd r1 = 46 then dropWhile is_dec (tl r1) else r1)
         in if r2 \<noteq> [] \<and> (is_ident_char (hd r2) \<or> hd r2 = 46) then [TBad]
            else number_token ip fp # lex fuel r2)
      else if is_ascii_letter c \<or> c = 95 then
        TName (takeWhile is_ident_char (c # cs)) # lex fuel (dropWhile is_ident_char cs)
      else if (c = 42 \<or> c = 47) \<and> cs \<noteq> [] \<and> hd cs = c then TOp [c, c] # lex fuel (tl cs)
      else if List.member (lit ''+-*/%()~'') c then TOp [c] # lex fuel cs
      else [TBad])"

definition KEYWORDS :: "pystr list" where
  "KEYWORDS = map lit [''and'', ''as'', ''assert'', ''async'', ''await'', ''break'', ''class'',
     ''continue'', ''def'', ''del'', ''elif'', ''else'', ''except'', ''finally'', ''for'', ''from'',
     ''global'', ''if'', ''import'', ''in'', ''is'', ''lambda'', ''nonlocal'', ''not'', ''or'',
     ''pass'', ''raise'', ''return'', ''try'', ''while'', ''with'', ''yield'']"

definition name_node :: "pystr \<Rightarrow> rat node option" where
  "name_node nm =
     (if nm = lit ''True'' then Some (Constant (CBool True))
      else if nm = lit ''False'' then Some (Constant (CBool False))
      else if nm = lit ''None'' then Some (Constant CNone)
      else if List.member KEYWORDS nm then None
      else Some (Name nm))"

definition term_op :: "pystr \<Rightarrow> binop option" where
  "term_op s =
     (if s = lit ''*'' then Some Mult else if s = lit ''/'' then Some Div
      else if s = lit ''//'' then Some FloorDiv else if s = lit ''%'' then Some Mod else None)"

definition sum_op :: "pystr \<Rightarrow> binop option" where
  "sum_op s = (if s = lit ''+'' then Some Add else if s = lit ''-'' then Some Sub else None)"

definition prefix_op :: "pystr \<Rightarrow> unaryop option" where
  "prefix_op s =
     (if s = lit ''-'' then Some USub else if s = lit ''+'' then Some UAdd
      else if s = lit ''~'' then Some Invert else None)"

datatype level = Sum | SumRest "rat node" | Term | TermRest "rat node" | Factor | Power | Atom

fun parse :: "unit list \<Rightarrow> level \<Rightarrow> token list \<Rightarrow> (rat node \<times> token list) option" where
  "parse [] lv ts = None"
| "parse (f # n) Sum ts =
     (case parse n Term ts of None \<Rightarrow> None | Some (l, r) \<Rightarrow> parse n (SumRest l) r)"
| "parse (f # n) (SumRest l) ts =
     (case ts of
        TOp s # r \<Rightarrow>
          (case sum_op s of
             None \<Rightarrow> Some (l, ts)
           | Some b \<Rightarrow>
               (case parse n Term r of
                  None \<Rightarrow> None
                | Some (e, r') \<Rightarrow> parse n (SumRest (BinOp l b e)) r'))
      | _ \<Rightarrow> Some (l, ts))"
| "parse (f # n) Term ts =
     (case parse n Factor ts of None \<Rightarrow> None | Some (l, r) \<Rightarrow> parse n (TermRest l) r)"
| "parse (f # n) (TermRest l) ts =
     (case ts of
        TOp s # r \<Rightarrow>
          (case term_op s of
             None \<Rightarrow> Some (l, ts)
           | Some b \<Rightarrow>
               (case parse n Factor r of
                  None \<Rightarrow> None
                | Some (e, r') \<Rightarrow> parse n (TermRest (BinOp l b e)) r'))
      | _ \<Rightarrow> Some (l, ts))"
| "parse (f # n) Factor ts =
     (case ts of
        TOp s # r \<Rightarrow>
          (case prefix_op s of
             None \<Rightarrow> parse n Power ts
           | Some u \<Rightarrow>
               (case parse n Factor r of None \<Rightarrow> None | Some (e, r') \<Rightarrow> Some (UnaryOp u e, r')))
      | _ \<Rightarrow> parse n Power ts)"
| "parse (f # n) Power ts =
     (case parse n Atom ts of
        None \<Rightarrow> None
      | Some (b, r) \<Rightarrow>
          (case r of
             TOp s # r' \<Rightarrow>
               if s = lit ''**''
               then (case parse n Factor r' of
                       None \<Rightarrow> None
                     | Some (e, r'') \<Rightarrow> Some (BinOp b Pow_op e, r''))
               else Some (b, r)
           | _ \<Rightarrow> Some (b, r)))"
| "parse (f # n) Atom ts =
     (case ts of
        TNumber c # r \<Rightarrow> Some (Constant c, r)
      | TName nm # r \<Rightarrow> (case name_node nm of None \<Rightarrow> None | Some e \<Rightarrow> Some (e, r))
      | TOp s # r \<Rightarrow>
          if s = lit ''(''
          then (case parse n Sum r of
                  None \<Rightarrow> None
                | Some (e, r') \<Rightarrow>
                    (case r' of
                       TOp s' # r'' \<Rightarrow> if s' = lit '')'' then Some (e, r'') else None
                     | _ \<Rightarrow> None))
          else None
      | _ \<Rightarrow> None)"

definition fragment_parse :: "pystr \<Rightarrow> pyexc + rat node" where
  "fragment_parse s =
     (let ts = lex (0 # s) s;
          fuel = concat (map (\<lambda>t. [(), (), (), (), (), (), (), ()]) (TBad # ts))
      in case parse fuel Sum ts of
           Some (e, []) \<Rightarrow> Inr (Expression e)
         | _ \<Rightarrow> Inl (Raise SyntaxError (lit ''invalid syntax (<unknown>, line 1)'')))"

definition round_half_even :: "rat \<Rightarrow> int" where
  "round_half_even x =
     (let f = \<lfloor>x\<rfloor>; d = x - of_int f in
      if d < 1 / 2 then f else if 1 / 2 < d then f + 1 else if even f then f else f + 1)"

fun frac_digits :: "nat \<Rightarrow> rat \<Rightarrow> pystr" where
  "frac_digits 0 r = []"
| "frac_digits (Suc n) r =
     (let d = \<lfloor>10 * r\<rfloor>; r' = 10 * r - of_int d in
      (48 + nat d) # (if r' = 0 then [] else frac_digits n r'))"

definition exact_float_str :: "rat \<Rightarrow> pystr" where
  "exact_float_str x =
     (if x < 0 then [45] else []) @ nat_digits (nat \<lfloor>\<bar>x\<bar>\<rfloor>) @ [46] @
     frac_digits 16 (\<bar>x\<bar> - of_int \<lfloor>\<bar>x\<bar>\<rfloor>)"

definition float_max_bound :: int where
  "float_max_bound = 2 ^ 1024 - 2 ^ 970"

definition exact_float_of_int :: "int \<Rightarrow> pyexc + rat" where
  "exact_float_of_int i =
     (if \<bar>i\<bar> < float_max_bound then Inr (of_int i)
      else Inl (Raise OverflowError (lit ''int too large to convert to float'')))"

definition exact_arith :: "operator_fn \<Rightarrow> rat \<Rightarrow> rat \<Rightarrow> rat" where
  "exact_arith f x y =
     (case f of
        op_add \<Rightarrow> x + y
      | op_sub \<Rightarrow> x - y
      | op_mul \<Rightarrow> x * y
      | op_truediv \<Rightarrow> x / y
      | op_floordiv \<Rightarrow> of_int \<lfloor>x / y\<rfloor>
      | op_mod \<Rightarrow> x - y * of_int \<lfloor>x / y\<rfloor>
      | op_pow \<Rightarrow> 0)"

definition exact_pow :: "rat \<Rightarrow> rat \<Rightarrow> pyexc + rat pyval" where
  "exact_pow x y =
     (if y \<noteq> of_int \<lfloor>y\<rfloor>
        then Inl (Raise OtherException (lit ''a power with a fractional exponent has no exact value''))
      else if 0 \<le> y then Inr (VFloat (x ^ nat \<lfloor>y\<rfloor>))
      else if x = 0
        then Inl (Raise ZeroDivisionError (lit ''0.0 cannot be raised to a negative power''))
      else Inr (VFloat (1 / x ^ nat (- \<lfloor>y\<rfloor>))))"

definition exact_int_truediv :: "int \<Rightarrow> int \<Rightarrow> pyexc + rat" where
  "exact_int_truediv i j =
     (if \<bar>of_int i / of_int j :: rat\<bar> < of_int float_max_bound then Inr (of_int i / of_int j)
      else Inl (Raise OverflowError (lit ''integer division result too large for a float'')))"

definition cpython_zero_division_text :: "operator_fn \<Rightarrow> bool \<Rightarrow> pystr" where
  "cpython_zero_division_text f on_floats =
     (if on_floats
      then (if f = op_truediv then lit ''float division by zero''
            else if f = op_floordiv then lit ''float floor division by zero''
            else lit ''float modulo'')
      else (if f = op_truediv then lit ''division by zero''
            else if f = op_floordiv then lit ''integer division or modulo by zero''
            else lit ''integer modulo by zero''))"

definition fixed_clock :: "pystr \<Rightarrow> pyexc + pystr" where
  "fixed_clock tz =
     (if tz = lit ''UTC'' then Inr (lit ''2026-02-01 12:00:00 (UTC)'')
      else if tz = lit ''Europe/London'' then Inr (lit ''2026-02-01 12:00:00 (GMT)'')
      else if tz = lit ''Asia/Tokyo'' then Inr (lit ''2026-02-01 21:00:00 (JST)'')
      else if tz = lit ''Africa/Johannesburg'' then Inr (lit ''2026-02-01 14:00:00 (SAST)'')
      else Inl (Raise OtherException (lit ''No time zone found with key '' @ tz)))"

definition exact_host :: "rat host" where
  "exact_host =
     \<lparr> ast_parse = fragment_parse,
       uni_decimal = (\<lambda>c. if 1632 \<le> c \<and> c \<le> 1641 then Some (c - 1632) else None),
       uni_other_digit = (\<lambda>c. c = 178 \<or> c = 179 \<or> c = 185),
       float_of_int = exact_float_of_int,
       float_arith = exact_arith,
       float_neg = uminus,
       float_is_zero = (\<lambda>x. x = 0),
       float_pow = exact_pow,
       int_truediv = exact_int_truediv,
       complex_arith = (\<lambda>f a b. Inl (Raise TypeError (lit ''no complex numbers on this host''))),
       float_round = (\<lambda>x. Inr (round_half_even x)),
       float_near = (\<lambda>x n. \<bar>x - of_int n\<bar> < 1 / 10 ^ 12),
       float_str = exact_float_str,
       complex_str = (\<lambda>re im. []),
       zero_division_text = cpython_zero_division_text,
       invalid_int_text = (\<lambda>s. lit ''invalid literal for int() with base 10: '' @ [39] @ s @ [39]),
       zoneinfo_available = True,
       now_in = fixed_clock \<rparr>"

section \<open>Notions used to state the properties\<close>


text \<open>
  Somewhere in the tree an allowed binary operator was applied to two operands that had
  been evaluated, and the host raised an exception from it.
\<close>

fun host_raised :: "'f host \<Rightarrow> 'f node \<Rightarrow> bool" where
  "host_raised h (Expression body) = host_raised h body"
| "host_raised h (BinOp left opr right) =
     (host_raised h left \<or> host_raised h right \<or>
      (case ALLOWED_OPS opr of
         None \<Rightarrow> False
       | Some f \<Rightarrow>
           (case eval h left of
              Inl e \<Rightarrow> False
            | Inr a \<Rightarrow> (case eval h right of Inl e \<Rightarrow> False | Inr b \<Rightarrow> isl (apply_binary h f a b)))))"
| "host_raised h (UnaryOp opr operand) = host_raised h operand"
| "host_raised h (Constant c) = False"
| "host_raised h (Name ident) = False"
| "host_raised h (OtherNode cls) = False"

text \<open>
  The maximal runs of a text for a character class, from left to right: each run is a
  longest block of class characters, with no class character next to it on either side.
\<close>

function maximal_runs :: "(nat \<Rightarrow> bool) \<Rightarrow> pystr \<Rightarrow> pystr list" where
  "maximal_runs P [] = []"
| "maximal_runs P (c # cs) =
     (if P c then takeWhile P (c # cs) # maximal_runs P (dropWhile P cs)
      else maximal_runs P cs)"
  by pat_completeness auto
termination
  by (relation "measure (\<lambda>(P, s). length s)") (auto simp: length_dropWhile_le less_Suc_eq_le)

text \<open>
  What each stage of \<open>run_agent\<close> contributes to a turn: pairs of a tool record and the
  section of the reply that goes with it.
\<close>

definition clock_sections :: "'f host \<Rightarrow> pystr \<Rightarrow> pystr \<Rightarrow> (ToolStep \<times> pystr) list" where
  "clock_sections h user_text default_tz =
     map (\<lambda>(city, tz).
            (\<lparr>tool = lit ''get_time'', input = tz, result = get_time h tz\<rparr>,
             [128338] @ lit '' **'' @ py_title city @ lit ''**: '' @ get_time h tz))
       (find_requested_timezones user_text default_tz)"

definition calc_sections :: "'f host \<Rightarrow> pystr \<Rightarrow> (ToolStep \<times> pystr) list" where
  "calc_sections h user_text =
     (case extract_math_expression h user_text of
        None \<Rightarrow> []
      | Some e \<Rightarrow>
          if e = [] then []
          else [(\<lparr>tool = lit ''calculator'', input = e, result = safe_calc h e\<rparr>,
                 [129518] @ lit '' **'' @ e @ lit ''** = `'' @ safe_calc h e @ lit ''`'')])"

definition plan_sections :: "pystr \<Rightarrow> (ToolStep \<times> pystr) list" where
  "plan_sections user_text =
     (if list_ex (\<lambda>k. py_in k (py_lower user_text)) PLAN_WORDS
      then [(\<lparr>tool = lit ''make_plan'', input = user_text, result = make_plan user_text\<rparr>,
             make_plan user_text)]
      else [])"

definition sections :: "'f host \<Rightarrow> pystr \<Rightarrow> pystr \<Rightarrow> (ToolStep \<times> pystr) list" where
  "sections h user_text default_tz =
     clock_sections h user_text default_tz @ calc_sections h user_text @ plan_sections user_text"

section \<open>Rules to run the model on a given input\<close>

lemmas string_eval = lit_def py_strip_def strip_where_def py_isspace_def py_strip_chars_def
  py_lower_def lower_char_def starts_with_def is_ascii_letter_def

lemmas parser_eval = fragment_parse_def is_dec_def is_ident_char_def is_ascii_letter_def
  digits_value_def number_token_def name_node_def KEYWORDS_def term_op_def sum_op_def
  prefix_op_def lit_def Let_def

lemmas arith_eval = apply_binary_def int_binop_def via_floats_def float_binop_def divides_def
  exact_host_def exact_float_of_int_def exact_arith_def exact_pow_def exact_int_truediv_def
  float_max_bound_def cpython_zero_division_text_def round_half_even_def unsupported_def

lemmas calc_eval = safe_calc_def calc_outcome_def string_eval parser_eval arith_eval str_int_def
  nat_digits.simps

lemmas extract_eval = extract_math_expression_def looks_like_math_def MATH_RE_class_def
  py_isdecimal_def py_isdigit_def digit_value_def exact_host_def string_eval Let_def

section \<open>Strings\<close>

lemma foldl_collect_pairs:
  "foldl (\<lambda>hits (city, tz). if Q city then hits @ [(city, tz)] else hits) acc xs
     = acc @ filter (\<lambda>(city, tz). Q city) xs"
  by (induction xs arbitrary: acc) auto




lemma last_dropWhile: "dropWhile P xs \<noteq> [] \<Longrightarrow> last (dropWhile P xs) = last xs"
  by (induction xs) auto







section \<open>Time zone extraction\<close>

text \<open>
  Claim C3.  \<open>find_requested_timezones\<close> lowers the text.  When the lowered text contains
  \<open>time\<close> or \<open>date\<close>, the result is the list of the entries of \<open>CITY_TZ\<close> whose city name
  occurs in the lowered text, in the order of the table, and the single entry
  \<open>your timezone\<close> with the caller's default zone when no city occurs.  Without the key
  words the result is empty.  For \<open>What time is it in Tokyo and London?\<close> with default
  \<open>UTC\<close> the result is the entries of London and Tokyo, London first as in the table.
\<close>

theorem find_requested_timezones_table_order:
  "find_requested_timezones text default_tz =
     (if py_in (lit ''time'') (py_lower text) \<or> py_in (lit ''date'') (py_lower text)
      then (case filter (\<lambda>(city, tz). py_in city (py_lower text)) CITY_TZ of
              [] \<Rightarrow> [(lit ''your timezone'', default_tz)]
            | hit # hits \<Rightarrow> hit # hits)
      else [])
   \<and> find_requested_timezones (lit ''What time is it in Tokyo and London?'') (lit ''UTC'')
       = [(lit ''london'', lit ''Europe/London''), (lit ''tokyo'', lit ''Asia/Tokyo'')]"
proof
  show "find_requested_timezones text default_tz =
     (if py_in (lit ''time'') (py_lower text) \<or> py_in (lit ''date'') (py_lower text)
      then (case filter (\<lambda>(city, tz). py_in city (py_lower text)) CITY_TZ of
              [] \<Rightarrow> [(lit ''your timezone'', default_tz)]
            | hit # hits \<Rightarrow> hit # hits)
      else [])"
    unfolding find_requested_timezones_def mentions_time_def Let_def foldl_collect_pairs
    by (simp split: list.split)
  show "find_requested_timezones (lit ''What time is it in Tokyo and London?'') (lit ''UTC'')
       = [(lit ''london'', lit ''Europe/London''), (lit ''tokyo'', lit ''Asia/Tokyo'')]"
    by (simp add: find_requested_timezones_def mentions_time_def CITY_TZ_def lit_def
          py_lower_def lower_char_def starts_with_def Let_def)
qed

section \<open>The length limit of the calculator\<close>





section \<open>Nodes the evaluator has no case for\<close>





lemma safe_calc_failed:
  "length (py_strip s) \<le> 200 \<Longrightarrow> ast_parse h (py_strip s) = Inr t \<Longrightarrow> eval h t = Inl e \<Longrightarrow>
   calc_outcome h s = Failed e \<and> safe_calc h s = lit ''Could not evaluate: '' @ exc_text e"
  by (simp add: safe_calc_def calc_outcome_def)




section \<open>The crewAI tools\<close>







lemma strip_where_chars: "c \<in> set s \<Longrightarrow> P c \<or> c \<in> set (strip_where P s)"
proof -
  assume c: "c \<in> set s"
  let ?d = "dropWhile P s"
  let ?e = "dropWhile P (rev ?d)"
  have "set s = set (takeWhile P s) \<union> set ?d"
    by (metis set_append takeWhile_dropWhile_id)
  moreover have "set ?d = set (rev ?d)"
    by simp
  moreover have "set (rev ?d) = set (takeWhile P (rev ?d)) \<union> set ?e"
    by (metis set_append takeWhile_dropWhile_id)
  ultimately have "c \<in> set (takeWhile P s) \<or> c \<in> set (takeWhile P (rev ?d)) \<or> c \<in> set ?e"
    using c by blast
  then show ?thesis
    by (auto simp: strip_where_def dest: set_takeWhileD)
qed





section \<open>The two front ends\<close>

text \<open>
  Claim C9.  The two copies do not return the same results.  \<open>make_plan\<close> differs on
  every goal, since its literals differ, and \<open>run_agent\<close> differs on \<open>hello\<close>, where both
  copies answer with their help message and record no tool call.
\<close>

theorem front_ends_differ:
  "make_plan goal \<noteq> st_make_plan goal
   \<and> fst (run_agent exact_host (lit ''hello'') (lit ''UTC''))
       \<noteq> fst (st_run_agent exact_host (lit ''hello'') (lit ''UTC''))
   \<and> snd (run_agent exact_host (lit ''hello'') (lit ''UTC'')) = []
   \<and> snd (st_run_agent exact_host (lit ''hello'') (lit ''UTC'')) = []"
proof -
  have tz: "find_requested_timezones (lit ''hello'') (lit ''UTC'') = []"
    by (simp add: find_requested_timezones_def mentions_time_def lit_def py_lower_def
          lower_char_def starts_with_def Let_def)
  have ex: "extract_math_expression exact_host (lit ''hello'') = None"
    by (simp add: extract_math_expression_def MATH_RE_class_def py_isdecimal_def digit_value_def
          py_isspace_def exact_host_def lit_def)
  have pl: "\<not> list_ex (\<lambda>k. py_in k (py_lower (lit ''hello''))) PLAN_WORDS"
    by (simp add: PLAN_WORDS_def lit_def py_lower_def lower_char_def starts_with_def)
  have g: "run_agent exact_host (lit ''hello'') (lit ''UTC'') = (help_message, [])"
    by (simp add: run_agent_def tz ex pl)
  have s: "st_run_agent exact_host (lit ''hello'') (lit ''UTC'') = (st_help_message, [])"
    by (simp add: st_run_agent_def tz ex pl)
  have h: "help_message \<noteq> st_help_message"
    by (simp add: help_message_def st_help_message_def lit_def)
  have p: "make_plan goal \<noteq> st_make_plan goal"
    by (simp add: make_plan_def st_make_plan_def lit_def)
  from g s h p show ?thesis
    by simp
qed

section \<open>Division by zero\<close>

lemma host_raised_fails: "host_raised h t \<Longrightarrow> isl (eval h t)"
proof (induction h t rule: eval.induct)
  case (7 h left opr right)
  show ?case
  proof (cases "ALLOWED_OPS opr")
    case None
    then show ?thesis
      by simp
  next
    case (Some f)
    show ?thesis
    proof (cases "eval h left")
      case (Inl e1)
      with Some show ?thesis
        by simp
    next
      case (Inr a)
      note left = Inr
      show ?thesis
      proof (cases "eval h right")
        case (Inl e2)
        with Some left show ?thesis
          by simp
      next
        case (Inr b)
        from "7.IH"(1) [OF Some] left have "\<not> host_raised h left"
          by auto
        moreover from "7.IH"(2) [OF Some left] Inr have "\<not> host_raised h right"
          by auto
        ultimately show ?thesis
          using "7.prems" Some left Inr by simp
      qed
    qed
  qed
next
  case (8 h opr operand)
  show ?case
  proof (cases "ALLOWED_UNARY_OPS opr")
    case None
    then show ?thesis
      by simp
  next
    case (Some f)
    show ?thesis
    proof (cases "eval h operand")
      case (Inl e1)
      with Some show ?thesis
        by simp
    next
      case (Inr a)
      from "8.IH" [OF Some] Inr have "\<not> host_raised h operand"
        by auto
      with "8.prems" show ?thesis
        by simp
    qed
  qed
qed auto

lemma as_int_not_complex: "as_int a = Some i \<Longrightarrow> \<not> is_complex a"
  by (cases a) auto

lemma int_zero_divisor:
  "divides f \<Longrightarrow> as_int a = Some i \<Longrightarrow> as_int b = Some 0 \<Longrightarrow>
   apply_binary h f a b = Inl (Raise ZeroDivisionError (zero_division_text h f False))"
  by (auto simp: apply_binary_def int_binop_def divides_def dest: as_int_not_complex)

lemma mixed_operands:
  "\<not> is_complex a \<Longrightarrow> \<not> is_complex b \<Longrightarrow> as_int a = None \<or> as_int b = None \<Longrightarrow>
   apply_binary h f a b = via_floats h f a b"
  by (auto simp: apply_binary_def split: option.splits)

text \<open>
  Claim C7, amended.  For \<open>/\<close>, \<open>//\<close> and \<open>%\<close> on two evaluated operands: when both are
  integers (or booleans) and the divisor is zero, the host's \<open>ZeroDivisionError\<close> for
  integers is raised; when one of them is a float, the other is converted to a float
  first, and when both conversions succeed and the divisor is zero, the host's
  \<open>ZeroDivisionError\<close> for floats is raised; when a conversion fails, its exception is
  raised instead, whatever the divisor.  An exception of an operator is the result of
  the node it is applied at, every tree in which an operator raised fails to evaluate,
  and \<open>safe_calc\<close> returns every exception of the evaluation as text, \<open>Could not
  evaluate:\<close> followed by the host's message.  For every host whose parser reads \<open>1/0\<close>
  and \<open>5%0\<close> as one division and one modulo of integer constants, \<open>safe_calc\<close> answers
  with the host's message for the integer division and the integer modulo by zero.
\<close>

theorem zero_divisor_reported:
  "(divides f \<and> as_int a = Some i \<and> as_int b = Some 0 \<longrightarrow>
      apply_binary h f a b = Inl (Raise ZeroDivisionError (zero_division_text h f False)))
   \<and> (divides f \<and> \<not> is_complex a \<and> \<not> is_complex b \<and> (as_int a = None \<or> as_int b = None)
        \<and> to_float h a = Inr x \<and> to_float h b = Inr y \<and> float_is_zero h y \<longrightarrow>
      apply_binary h f a b = Inl (Raise ZeroDivisionError (zero_division_text h f True)))
   \<and> (\<not> is_complex a \<and> \<not> is_complex b \<and> (as_int a = None \<or> as_int b = None)
        \<and> to_float h a = Inl e \<longrightarrow>
      apply_binary h f a b = Inl e)
   \<and> (\<not> is_complex a \<and> \<not> is_complex b \<and> (as_int a = None \<or> as_int b = None)
        \<and> to_float h a = Inr x \<and> to_float h b = Inl e \<longrightarrow>
      apply_binary h f a b = Inl e)
   \<and> (ALLOWED_OPS opr = Some f \<and> eval h left = Inr a \<and> eval h right = Inr b
        \<and> apply_binary h f a b = Inl e \<longrightarrow>
      eval h (BinOp left opr right) = Inl e \<and> host_raised h (BinOp left opr right))
   \<and> (host_raised h t \<longrightarrow> isl (eval h t))
   \<and> (length (py_strip s) \<le> 200 \<and> ast_parse h (py_strip s) = Inr t \<and> eval h t = Inl e \<longrightarrow>
      safe_calc h s = lit ''Could not evaluate: '' @ exc_text e)
   \<and> (ast_parse h (lit ''1/0'')
         = Inr (Expression (BinOp (Constant (CInt 1)) Div (Constant (CInt 0)))) \<longrightarrow>
      safe_calc h (lit ''1/0'')
        = lit ''Could not evaluate: '' @ zero_division_text h op_truediv False)
   \<and> (ast_parse h (lit ''5%0'')
         = Inr (Expression (BinOp (Constant (CInt 5)) Mod (Constant (CInt 0)))) \<longrightarrow>
      safe_calc h (lit ''5%0'')
        = lit ''Could not evaluate: '' @ zero_division_text h op_mod False)"
proof (intro conjI impI)
  show "apply_binary h f a b = Inl (Raise ZeroDivisionError (zero_division_text h f False))"
    if "divides f \<and> as_int a = Some i \<and> as_int b = Some 0"
    using that by (simp add: int_zero_divisor)
  show "apply_binary h f a b = Inl (Raise ZeroDivisionError (zero_division_text h f True))"
    if "divides f \<and> \<not> is_complex a \<and> \<not> is_complex b \<and> (as_int a = None \<or> as_int b = None)
        \<and> to_float h a = Inr x \<and> to_float h b = Inr y \<and> float_is_zero h y"
  proof -
    from that have "f \<noteq> op_pow"
      by (auto simp: divides_def)
    with that mixed_operands [of a b h f] show ?thesis
      by (simp add: via_floats_def float_binop_def)
  qed
  show "apply_binary h f a b = Inl e"
    if "\<not> is_complex a \<and> \<not> is_complex b \<and> (as_int a = None \<or> as_int b = None)
        \<and> to_float h a = Inl e"
    using that mixed_operands [of a b h f] by (simp add: via_floats_def)
  show "apply_binary h f a b = Inl e"
    if "\<not> is_complex a \<and> \<not> is_complex b \<and> (as_int a = None \<or> as_int b = None)
        \<and> to_float h a = Inr x \<and> to_float h b = Inl e"
    using that mixed_operands [of a b h f] by (simp add: via_floats_def)
  show "eval h (BinOp left opr right) = Inl e"
    if "ALLOWED_OPS opr = Some f \<and> eval h left = Inr a \<and> eval h right = Inr b
        \<and> apply_binary h f a b = Inl e"
    using that by simp
  show "host_raised h (BinOp left opr right)"
    if "ALLOWED_OPS opr = Some f \<and> eval h left = Inr a \<and> eval h right = Inr b
        \<and> apply_binary h f a b = Inl e"
    using that by simp
  show "isl (eval h t)" if "host_raised h t"
    using that by (rule host_raised_fails)
  show "safe_calc h s = lit ''Could not evaluate: '' @ exc_text e"
    if "length (py_strip s) \<le> 200 \<and> ast_parse h (py_strip s) = Inr t \<and> eval h t = Inl e"
    using that safe_calc_failed [of s h t e] by simp
  show "safe_calc h (lit ''1/0'')
        = lit ''Could not evaluate: '' @ zero_division_text h op_truediv False"
    if "ast_parse h (lit ''1/0'')
         = Inr (Expression (BinOp (Constant (CInt 1)) Div (Constant (CInt 0))))"
  proof -
    have "py_strip (lit ''1/0'') = lit ''1/0''"
      by (simp add: string_eval)
    moreover have "length (lit ''1/0'') \<le> 200"
      by (simp add: lit_def)
    ultimately show ?thesis
      using that
      by (simp add: safe_calc_def calc_outcome_def Let_def apply_binary_def int_binop_def)
  qed
  show "safe_calc h (lit ''5%0'')
        = lit ''Could not evaluate: '' @ zero_division_text h op_mod False"
    if "ast_parse h (lit ''5%0'')
         = Inr (Expression (BinOp (Constant (CInt 5)) Mod (Constant (CInt 0))))"
  proof -
    have "py_strip (lit ''5%0'') = lit ''5%0''"
      by (simp add: string_eval)
    moreover have "length (lit ''5%0'') \<le> 200"
      by (simp add: lit_def)
    ultimately show ?thesis
      using that
      by (simp add: safe_calc_def calc_outcome_def Let_def apply_binary_def int_binop_def)
  qed
qed

text \<open>\<open>1/0\<close>, \<open>5%0\<close> and the floor division of 7 by 0.0 on the reference host.\<close>

theorem zero_divisor_reported_witness:
  "ast_parse exact_host (lit ''1/0'')
     = Inr (Expression (BinOp (Constant (CInt 1)) Div (Constant (CInt 0))))
   \<and> safe_calc exact_host (lit ''1/0'') = lit ''Could not evaluate: division by zero''
   \<and> ast_parse exact_host (lit ''5%0'')
     = Inr (Expression (BinOp (Constant (CInt 5)) Mod (Constant (CInt 0))))
   \<and> safe_calc exact_host (lit ''5%0'') = lit ''Could not evaluate: integer modulo by zero''
   \<and> divides op_floordiv \<and> to_float exact_host (VInt 7) = Inr 7
   \<and> to_float exact_host (VFloat 0) = Inr 0 \<and> float_is_zero exact_host 0
   \<and> apply_binary exact_host op_floordiv (VInt 7) (VFloat 0)
       = Inl (Raise ZeroDivisionError (lit ''float floor division by zero''))"
proof -
  have p: "ast_parse exact_host (lit ''1/0'')
     = Inr (Expression (BinOp (Constant (CInt 1)) Div (Constant (CInt 0))))"
    by (simp add: exact_host_def parser_eval)
  have q: "ast_parse exact_host (lit ''5%0'')
     = Inr (Expression (BinOp (Constant (CInt 5)) Mod (Constant (CInt 0))))"
    by (simp add: exact_host_def parser_eval)
  have m: "zero_division_text exact_host op_truediv False = lit ''division by zero''"
    "zero_division_text exact_host op_mod False = lit ''integer modulo by zero''"
    "zero_division_text exact_host op_floordiv True = lit ''float floor division by zero''"
    by (simp_all add: exact_host_def cpython_zero_division_text_def)
  have f: "divides op_floordiv" "to_float exact_host (VInt 7) = Inr 7"
    "to_float exact_host (VFloat 0) = Inr 0" "float_is_zero exact_host 0"
    by (simp_all add: divides_def exact_host_def exact_float_of_int_def float_max_bound_def)
  note T = zero_divisor_reported [of op_floordiv "VInt 7" _ "VFloat 0" exact_host 7 0]
  from T p m have one: "safe_calc exact_host (lit ''1/0'') = lit ''Could not evaluate: division by zero''"
    by (simp add: lit_def)
  from T q m have two: "safe_calc exact_host (lit ''5%0'') = lit ''Could not evaluate: integer modulo by zero''"
    by (simp add: lit_def)
  from T f m have three: "apply_binary exact_host op_floordiv (VInt 7) (VFloat 0)
       = Inl (Raise ZeroDivisionError (lit ''float floor division by zero''))"
    by simp
  from p q f one two three show ?thesis
    by blast
qed

text \<open>
  A division whose divisor is zero and whose report is not a division by zero: the
  integer \<open>10**400\<close> is too large to be converted to a float.
\<close>

theorem overflow_before_zero_divisor_counterexample:
  "ast_parse exact_host (lit ''10**400/0.0'')
     = Inr (Expression (BinOp (BinOp (Constant (CInt 10)) Pow_op (Constant (CInt 400))) Div
              (Constant (CFloat 0))))
   \<and> safe_calc exact_host (lit ''10**400/0.0'')
       = lit ''Could not evaluate: int too large to convert to float''"
proof -
  have "ast_parse exact_host (lit ''10**400/0.0'')
     = Inr (Expression (BinOp (BinOp (Constant (CInt 10)) Pow_op (Constant (CInt 400))) Div
              (Constant (CFloat 0))))"
    by (simp add: exact_host_def parser_eval)
  moreover have "safe_calc exact_host (lit ''10**400/0.0'')
       = lit ''Could not evaluate: int too large to convert to float''"
    by (simp add: calc_eval)
  ultimately show ?thesis
    by simp
qed

section \<open>The dispatcher\<close>

lemma foldl_time_turn:
  "foldl (time_turn h) (steps, parts) hits =
     (steps @ map (\<lambda>(city, tz). \<lparr>tool = lit ''get_time'', input = tz, result = get_time h tz\<rparr>) hits,
      parts @ map (\<lambda>(city, tz). [128338] @ lit '' **'' @ py_title city @ lit ''**: '' @ get_time h tz) hits)"
  by (induction hits arbitrary: steps parts) (auto simp: time_turn_def Let_def)

lemma clock_sections_fst:
  "map fst (clock_sections h user_text default_tz) =
     map (\<lambda>(city, tz). \<lparr>tool = lit ''get_time'', input = tz, result = get_time h tz\<rparr>)
       (find_requested_timezones user_text default_tz)"
  by (simp add: clock_sections_def case_prod_beta comp_def)

lemma clock_sections_snd:
  "map snd (clock_sections h user_text default_tz) =
     map (\<lambda>(city, tz). [128338] @ lit '' **'' @ py_title city @ lit ''**: '' @ get_time h tz)
       (find_requested_timezones user_text default_tz)"
  by (simp add: clock_sections_def case_prod_beta comp_def)

lemma run_agent_sections:
  "run_agent h user_text default_tz =
     (py_join [10, 10]
        (if sections h user_text default_tz = [] then [help_message]
         else map snd (sections h user_text default_tz)),
      map fst (sections h user_text default_tz))"
proof -
  have clock_empty: "clock_sections h user_text default_tz = []
      \<longleftrightarrow> find_requested_timezones user_text default_tz = []"
    by (simp add: clock_sections_def)
  show ?thesis
    unfolding run_agent_def foldl_time_turn
    by (simp add: sections_def clock_sections_fst clock_sections_snd clock_empty
          calc_sections_def plan_sections_def Let_def split: option.split)
qed

lemma py_join_not_empty: "p \<noteq> [] \<Longrightarrow> py_join sep (p # ps) \<noteq> []"
  by (cases ps) auto

lemma digit_is_kept:
  assumes "py_isdigit h d"
  shows "d \<notin> set (lit '' .,:;!?'')"
proof -
  from assms have "48 \<le> d"
    by (auto simp: py_isdigit_def py_isdecimal_def digit_value_def split: if_splits)
  moreover have "\<And>x. x \<in> set (lit '' .,:;!?'') \<Longrightarrow> x < 48 \<or> 58 \<le> x"
    by (auto simp: lit_def)
  moreover from assms have "d < 58 \<or> 128 \<le> d"
    by (auto simp: py_isdigit_def py_isdecimal_def digit_value_def split: if_splits)
  moreover have "\<And>x. x \<in> set (lit '' .,:;!?'') \<Longrightarrow> x < 128"
    by (auto simp: lit_def)
  ultimately show ?thesis
    by fastforce
qed

lemma extract_math_expression_not_empty: "extract_math_expression h text \<noteq> Some []"
proof
  assume a: "extract_math_expression h text = Some []"
  then obtain c where c: "List.find (looks_like_math h) (map py_strip (MATH_RE_finditer h text)) = Some c"
    and e: "py_strip_chars (lit '' .,:;!?'') c = []"
    by (auto simp: extract_math_expression_def Let_def split: option.splits)
  from c have "looks_like_math h c"
    by (auto simp: find_Some_iff)
  then obtain d where d: "d \<in> set c" "py_isdigit h d"
    by (auto simp: looks_like_math_def list_ex_iff)
  from d(2) have "d \<notin> set (lit '' .,:;!?'')"
    by (rule digit_is_kept)
  with d(1) strip_where_chars [of d c "\<lambda>x. x \<in> set (lit '' .,:;!?'')"]
  have "d \<in> set (py_strip_chars (lit '' .,:;!?'') c)"
    by (simp add: py_strip_chars_def)
  with e show False
    by simp
qed

lemma calc_sections_empty:
  "calc_sections h user_text = [] \<longleftrightarrow> extract_math_expression h user_text = None"
  using extract_math_expression_not_empty [of h user_text]
  by (auto simp: calc_sections_def split: option.splits)

lemma sections_empty:
  "sections h user_text default_tz = [] \<longleftrightarrow>
     find_requested_timezones user_text default_tz = []
     \<and> extract_math_expression h user_text = None
     \<and> \<not> list_ex (\<lambda>k. py_in k (py_lower user_text)) PLAN_WORDS"
  by (simp add: sections_def calc_sections_empty clock_sections_def plan_sections_def)

lemma section_heads:
  assumes "p \<in> set (map snd (sections h user_text default_tz))"
  shows "p \<noteq> [] \<and> hd p \<noteq> 73"
proof -
  from assms consider
    (clock) "p \<in> set (map snd (clock_sections h user_text default_tz))"
    | (calc) "p \<in> set (map snd (calc_sections h user_text))"
    | (plan) "p \<in> set (map snd (plan_sections user_text))"
    by (auto simp: sections_def)
  then show ?thesis
  proof cases
    case clock
    then show ?thesis
      by (auto simp: clock_sections_snd)
  next
    case calc
    then show ?thesis
      by (auto simp: calc_sections_def split: option.splits if_splits)
  next
    case plan
    then show ?thesis
      by (auto simp: plan_sections_def make_plan_def lit_def split: if_splits)
  qed
qed

lemma help_message_head: "help_message \<noteq> [] \<and> hd help_message = 73"
  by (simp add: help_message_def lit_def)

text \<open>
  Claim C5.  The reply of \<open>run_agent\<close> and its list of tool records are put together
  from the same three contributions in the same order: the clock sections, one for each
  requested time zone in the order \<open>find_requested_timezones\<close> gives them, then the
  calculator section, then the plan; the sections are joined by an empty line, and the
  record in position \<open>k\<close> is the one its section was made with.  Each contribution
  depends on its own test only: there are as many \<open>get_time\<close> records as requested time
  zones, a \<open>calculator\<close> record exactly when \<open>extract_math_expression\<close> finds an
  expression, and a \<open>make_plan\<close> record exactly when the lowered text holds a plan word,
  whatever the other two tests gave.
\<close>

theorem run_agent_pipeline_order:
  "run_agent h user_text default_tz =
     (py_join [10, 10]
        (if sections h user_text default_tz = [] then [help_message]
         else map snd (clock_sections h user_text default_tz)
              @ map snd (calc_sections h user_text) @ map snd (plan_sections user_text)),
      map fst (clock_sections h user_text default_tz)
      @ map fst (calc_sections h user_text) @ map fst (plan_sections user_text))
   \<and> map tool (snd (run_agent h user_text default_tz)) =
       replicate (length (find_requested_timezones user_text default_tz)) (lit ''get_time'')
       @ (if extract_math_expression h user_text = None then [] else [lit ''calculator''])
       @ (if list_ex (\<lambda>k. py_in k (py_lower user_text)) PLAN_WORDS then [lit ''make_plan''] else [])
   \<and> map fst (clock_sections h user_text default_tz) =
       map (\<lambda>(city, tz). \<lparr>tool = lit ''get_time'', input = tz, result = get_time h tz\<rparr>)
         (find_requested_timezones user_text default_tz)
   \<and> map snd (clock_sections h user_text default_tz) =
       map (\<lambda>(city, tz). [128338] @ lit '' **'' @ py_title city @ lit ''**: '' @ get_time h tz)
         (find_requested_timezones user_text default_tz)
   \<and> calc_sections h user_text =
       (case extract_math_expression h user_text of
          None \<Rightarrow> []
        | Some e \<Rightarrow>
            [(\<lparr>tool = lit ''calculator'', input = e, result = safe_calc h e\<rparr>,
              [129518] @ lit '' **'' @ e @ lit ''** = `'' @ safe_calc h e @ lit ''`'')])
   \<and> plan_sections user_text =
       (if list_ex (\<lambda>k. py_in k (py_lower user_text)) PLAN_WORDS
        then [(\<lparr>tool = lit ''make_plan'', input = user_text, result = make_plan user_text\<rparr>,
               make_plan user_text)]
        else [])"
proof (intro conjI)
  show "run_agent h user_text default_tz =
     (py_join [10, 10]
        (if sections h user_text default_tz = [] then [help_message]
         else map snd (clock_sections h user_text default_tz)
              @ map snd (calc_sections h user_text) @ map snd (plan_sections user_text)),
      map fst (clock_sections h user_text default_tz)
      @ map fst (calc_sections h user_text) @ map fst (plan_sections user_text))"
    by (simp add: run_agent_sections) (simp add: sections_def)
  have calc: "calc_sections h user_text =
       (case extract_math_expression h user_text of
          None \<Rightarrow> []
        | Some e \<Rightarrow>
            [(\<lparr>tool = lit ''calculator'', input = e, result = safe_calc h e\<rparr>,
              [129518] @ lit '' **'' @ e @ lit ''** = `'' @ safe_calc h e @ lit ''`'')])"
    using extract_math_expression_not_empty [of h user_text]
    by (auto simp: calc_sections_def split: option.splits)
  then show "calc_sections h user_text =
       (case extract_math_expression h user_text of
          None \<Rightarrow> []
        | Some e \<Rightarrow>
            [(\<lparr>tool = lit ''calculator'', input = e, result = safe_calc h e\<rparr>,
              [129518] @ lit '' **'' @ e @ lit ''** = `'' @ safe_calc h e @ lit ''`'')])" .
  show "map tool (snd (run_agent h user_text default_tz)) =
       replicate (length (find_requested_timezones user_text default_tz)) (lit ''get_time'')
       @ (if extract_math_expression h user_text = None then [] else [lit ''calculator''])
       @ (if list_ex (\<lambda>k. py_in k (py_lower user_text)) PLAN_WORDS then [lit ''make_plan''] else [])"
    by (simp add: run_agent_sections sections_def clock_sections_fst calc plan_sections_def
          comp_def case_prod_beta map_replicate_const split: option.split)
  show "map fst (clock_sections h user_text default_tz) =
       map (\<lambda>(city, tz). \<lparr>tool = lit ''get_time'', input = tz, result = get_time h tz\<rparr>)
         (find_requested_timezones user_text default_tz)"
    by (rule clock_sections_fst)
  show "map snd (clock_sections h user_text default_tz) =
       map (\<lambda>(city, tz). [128338] @ lit '' **'' @ py_title city @ lit ''**: '' @ get_time h tz)
         (find_requested_timezones user_text default_tz)"
    by (rule clock_sections_snd)
  show "plan_sections user_text =
       (if list_ex (\<lambda>k. py_in k (py_lower user_text)) PLAN_WORDS
        then [(\<lparr>tool = lit ''make_plan'', input = user_text, result = make_plan user_text\<rparr>,
               make_plan user_text)]
        else [])"
    by (rule plan_sections_def)
qed

text \<open>A turn in which all three stages contribute, on the reference host.\<close>

theorem run_agent_pipeline_order_witness:
  "run_agent exact_host (lit ''time in tokyo, 1+2, plan'') (lit ''UTC'') =
     ([128338] @ lit '' **Tokyo**: 2026-02-01 21:00:00 (JST)'' @ [10, 10]
      @ [129518] @ lit '' **1+2** = `3`'' @ [10, 10]
      @ make_plan (lit ''time in tokyo, 1+2, plan''),
      [\<lparr>tool = lit ''get_time'', input = lit ''Asia/Tokyo'',
         result = lit ''2026-02-01 21:00:00 (JST)''\<rparr>,
       \<lparr>tool = lit ''calculator'', input = lit ''1+2'', result = lit ''3''\<rparr>,
       \<lparr>tool = lit ''make_plan'', input = lit ''time in tokyo, 1+2, plan'',
         result = make_plan (lit ''time in tokyo, 1+2, plan'')\<rparr>])"
proof -
  let ?t = "lit ''time in tokyo, 1+2, plan''"
  have tz: "find_requested_timezones ?t (lit ''UTC'') = [(lit ''tokyo'', lit ''Asia/Tokyo'')]"
    by (simp add: find_requested_timezones_def mentions_time_def CITY_TZ_def lit_def
          py_lower_def lower_char_def starts_with_def Let_def)
  have ex: "extract_math_expression exact_host ?t = Some (lit ''1+2'')"
    by (simp add: extract_eval)
  have pl: "list_ex (\<lambda>k. py_in k (py_lower ?t)) PLAN_WORDS"
    by (simp add: PLAN_WORDS_def lit_def py_lower_def lower_char_def starts_with_def)
  have calc: "safe_calc exact_host (lit ''1+2'') = lit ''3''"
    by (simp add: calc_eval)
  have clock: "get_time exact_host (lit ''Asia/Tokyo'') = lit ''2026-02-01 21:00:00 (JST)''"
    by (simp add: get_time_def exact_host_def fixed_clock_def lit_def)
  have title: "py_title (lit ''tokyo'') = lit ''Tokyo''"
    by (simp add: py_title_def is_ascii_letter_def lit_def)
  have secs: "sections exact_host ?t (lit ''UTC'') \<noteq> []"
    by (simp add: sections_def clock_sections_def tz)
  have c: "clock_sections exact_host ?t (lit ''UTC'') =
      [(\<lparr>tool = lit ''get_time'', input = lit ''Asia/Tokyo'',
          result = lit ''2026-02-01 21:00:00 (JST)''\<rparr>,
        [128338] @ lit '' **Tokyo**: 2026-02-01 21:00:00 (JST)'')]"
    by (simp add: clock_sections_def tz clock title) (simp add: lit_def)
  note T = run_agent_pipeline_order [of exact_host ?t "lit ''UTC''"]
  from T [THEN conjunct2, THEN conjunct2, THEN conjunct2, THEN conjunct2, THEN conjunct1]
  have k: "calc_sections exact_host ?t =
      [(\<lparr>tool = lit ''calculator'', input = lit ''1+2'', result = lit ''3''\<rparr>,
        [129518] @ lit '' **1+2** = `3`'')]"
    by (simp add: ex calc) (simp add: lit_def)
  from T [THEN conjunct2, THEN conjunct2, THEN conjunct2, THEN conjunct2, THEN conjunct2]
  have p: "plan_sections ?t =
      [(\<lparr>tool = lit ''make_plan'', input = ?t, result = make_plan ?t\<rparr>, make_plan ?t)]"
    by (simp add: pl)
  from T [THEN conjunct1] show ?thesis
    by (simp add: secs c k p)
qed

text \<open>
  Claim C6.  \<open>run_agent\<close> returns a reply whose text is not empty.  When no time zone is
  requested, no expression is found and no plan word occurs, the reply is the help
  message, as it stands, and the list of tool records is empty.  Otherwise there is at
  least one section and one record, the reply is the sections joined by an empty line,
  and the help message is not among them.
\<close>

theorem run_agent_always_replies:
  "fst (run_agent h user_text default_tz) \<noteq> []
   \<and> (find_requested_timezones user_text default_tz = []
        \<and> extract_math_expression h user_text = None
        \<and> \<not> list_ex (\<lambda>k. py_in k (py_lower user_text)) PLAN_WORDS \<longrightarrow>
      run_agent h user_text default_tz = (help_message, []))
   \<and> (\<not> (find_requested_timezones user_text default_tz = []
           \<and> extract_math_expression h user_text = None
           \<and> \<not> list_ex (\<lambda>k. py_in k (py_lower user_text)) PLAN_WORDS) \<longrightarrow>
      sections h user_text default_tz \<noteq> []
      \<and> run_agent h user_text default_tz =
          (py_join [10, 10] (map snd (sections h user_text default_tz)),
           map fst (sections h user_text default_tz))
      \<and> snd (run_agent h user_text default_tz) \<noteq> []
      \<and> help_message \<notin> set (map snd (sections h user_text default_tz)))"
proof (intro conjI impI)
  show "fst (run_agent h user_text default_tz) \<noteq> []"
  proof (cases "sections h user_text default_tz")
    case Nil
    then show ?thesis
      using help_message_head by (simp add: run_agent_sections)
  next
    case (Cons s ss)
    then have "snd s \<in> set (map snd (sections h user_text default_tz))"
      by simp
    then have "snd s \<noteq> []"
      using section_heads by blast
    then have "py_join [10, 10] (snd s # map snd ss) \<noteq> []"
      by (rule py_join_not_empty)
    with Cons show ?thesis
      by (simp add: run_agent_sections)
  qed
  show "run_agent h user_text default_tz = (help_message, [])"
    if "find_requested_timezones user_text default_tz = []
        \<and> extract_math_expression h user_text = None
        \<and> \<not> list_ex (\<lambda>k. py_in k (py_lower user_text)) PLAN_WORDS"
  proof -
    from that have "sections h user_text default_tz = []"
      by (simp add: sections_empty)
    then show ?thesis
      by (simp add: run_agent_sections)
  qed
  assume n: "\<not> (find_requested_timezones user_text default_tz = []
           \<and> extract_math_expression h user_text = None
           \<and> \<not> list_ex (\<lambda>k. py_in k (py_lower user_text)) PLAN_WORDS)"
  then show ne: "sections h user_text default_tz \<noteq> []"
    by (simp add: sections_empty)
  then show "run_agent h user_text default_tz =
          (py_join [10, 10] (map snd (sections h user_text default_tz)),
           map fst (sections h user_text default_tz))"
    by (simp add: run_agent_sections)
  from ne show "snd (run_agent h user_text default_tz) \<noteq> []"
    by (simp add: run_agent_sections)
  show "help_message \<notin> set (map snd (sections h user_text default_tz))"
    using section_heads [of help_message h user_text default_tz] help_message_head by blast
qed

text \<open>\<open>hello\<close>, which matches nothing, and \<open>What is (12*7)/3?\<close> on the reference host.\<close>

theorem run_agent_always_replies_witness:
  "find_requested_timezones (lit ''hello'') (lit ''UTC'') = []
   \<and> extract_math_expression exact_host (lit ''hello'') = None
   \<and> \<not> list_ex (\<lambda>k. py_in k (py_lower (lit ''hello''))) PLAN_WORDS
   \<and> run_agent exact_host (lit ''hello'') (lit ''UTC'') = (help_message, [])
   \<and> extract_math_expression exact_host (lit ''What is (12*7)/3?'') = Some (lit ''(12*7)/3'')
   \<and> run_agent exact_host (lit ''What is (12*7)/3?'') (lit ''UTC'') =
       ([129518] @ lit '' **(12*7)/3** = `28`'',
        [\<lparr>tool = lit ''calculator'', input = lit ''(12*7)/3'', result = lit ''28''\<rparr>])"
proof -
  let ?q = "lit ''What is (12*7)/3?''"
  have tz: "find_requested_timezones (lit ''hello'') (lit ''UTC'') = []"
    by (simp add: find_requested_timezones_def mentions_time_def lit_def py_lower_def
          lower_char_def starts_with_def Let_def)
  have ex: "extract_math_expression exact_host (lit ''hello'') = None"
    by (simp add: extract_eval)
  have pl: "\<not> list_ex (\<lambda>k. py_in k (py_lower (lit ''hello''))) PLAN_WORDS"
    by (simp add: PLAN_WORDS_def lit_def py_lower_def lower_char_def starts_with_def)
  have tz2: "find_requested_timezones ?q (lit ''UTC'') = []"
    by (simp add: find_requested_timezones_def mentions_time_def lit_def py_lower_def
          lower_char_def starts_with_def Let_def)
  have ex2: "extract_math_expression exact_host ?q = Some (lit ''(12*7)/3'')"
    by (simp add: extract_eval)
  have pl2: "\<not> list_ex (\<lambda>k. py_in k (py_lower ?q)) PLAN_WORDS"
    by (simp add: PLAN_WORDS_def lit_def py_lower_def lower_char_def starts_with_def)
  have calc: "safe_calc exact_host (lit ''(12*7)/3'') = lit ''28''"
    by (simp add: calc_eval)
  have secs: "sections exact_host ?q (lit ''UTC'') =
      [(\<lparr>tool = lit ''calculator'', input = lit ''(12*7)/3'', result = lit ''28''\<rparr>,
        [129518] @ lit '' **(12*7)/3** = `28`'')]"
    by (simp add: sections_def clock_sections_def calc_sections_def plan_sections_def
          tz2 ex2 pl2 calc) (simp add: lit_def)
  from run_agent_always_replies [of exact_host "lit ''hello''" "lit ''UTC''",
      THEN conjunct2, THEN conjunct1, THEN mp, OF conjI [OF tz conjI [OF ex pl]]]
  have one: "run_agent exact_host (lit ''hello'') (lit ''UTC'') = (help_message, [])" .
  from run_agent_always_replies [of exact_host ?q "lit ''UTC''",
      THEN conjunct2, THEN conjunct2, THEN mp]
  have two: "run_agent exact_host ?q (lit ''UTC'') =
       ([129518] @ lit '' **(12*7)/3** = `28`'',
        [\<lparr>tool = lit ''calculator'', input = lit ''(12*7)/3'', result = lit ''28''\<rparr>])"
    by (simp add: ex2 secs)
  from tz ex pl one ex2 two show ?thesis
    by (intro conjI)
qed

section \<open>Expression extraction\<close>

lemma maximal_runs_unfold:
  "maximal_runs P xs =
     (if takeWhile P xs = [] then [] else [takeWhile P xs]) @ maximal_runs P (dropWhile P xs)"
  by (cases xs) auto

lemma takeWhile_run:
  assumes "\<And>c. c \<in> set r \<Longrightarrow> P c" and "post = [] \<or> \<not> P (hd post)"
  shows "takeWhile P (r @ post) = r" and "dropWhile P (r @ post) = post"
proof -
  from assms(2) have "takeWhile P post = []" and "dropWhile P post = post"
    by (cases post; auto)+
  with assms(1) show "takeWhile P (r @ post) = r" and "dropWhile P (r @ post) = post"
    by (simp_all add: takeWhile_append2)
qed

lemma maximal_runs_sound:
  "r \<in> set (maximal_runs P xs) \<Longrightarrow>
   \<exists>pre post. xs = pre @ r @ post \<and> r \<noteq> [] \<and> (\<forall>c\<in>set r. P c)
     \<and> (pre = [] \<or> \<not> P (last pre)) \<and> (post = [] \<or> \<not> P (hd post))"
proof (induction P xs rule: maximal_runs.induct)
  case (1 P)
  then show ?case
    by simp
next
  case (2 P c cs)
  show ?case
  proof (cases "P c")
    case False
    with "2.prems" have "r \<in> set (maximal_runs P cs)"
      by simp
    with "2.IH"(2) [OF False] obtain pre post where
      d: "cs = pre @ r @ post" "r \<noteq> []" "\<forall>c\<in>set r. P c"
        "pre = [] \<or> \<not> P (last pre)" "post = [] \<or> \<not> P (hd post)"
      by blast
    have "c # cs = (c # pre) @ r @ post"
      by (simp add: d(1))
    moreover have "c # pre = [] \<or> \<not> P (last (c # pre))"
      using d(4) False by auto
    ultimately show ?thesis
      using d(2,3,5) by blast
  next
    case True
    with "2.prems" consider "r = takeWhile P (c # cs)" | "r \<in> set (maximal_runs P (dropWhile P cs))"
      by auto
    then show ?thesis
    proof cases
      case 1
      have "c # cs = [] @ r @ dropWhile P (c # cs)"
        by (simp add: 1)
      moreover have "r \<noteq> []"
        using True by (simp add: 1)
      moreover have "\<forall>x\<in>set r. P x"
        by (auto simp: 1 dest: set_takeWhileD)
      moreover have "dropWhile P (c # cs) = [] \<or> \<not> P (hd (dropWhile P (c # cs)))"
        using hd_dropWhile [of P "c # cs"] by blast
      ultimately show ?thesis
        by blast
    next
      case 2
      with "2.IH"(1) [OF True] obtain pre post where
        d: "dropWhile P cs = pre @ r @ post" "r \<noteq> []" "\<forall>c\<in>set r. P c"
          "pre = [] \<or> \<not> P (last pre)" "post = [] \<or> \<not> P (hd post)"
        by blast
      have ne: "pre \<noteq> []"
      proof
        assume "pre = []"
        with d(1,2) have "dropWhile P cs \<noteq> []" and "hd (dropWhile P cs) = hd r"
          by auto
        with hd_dropWhile [of P cs] have "\<not> P (hd r)"
          by simp
        with d(2,3) show False
          by (cases r) auto
      qed
      have "c # cs = (c # takeWhile P cs @ pre) @ r @ post"
        using d(1) by (metis append.assoc append_Cons takeWhile_dropWhile_id)
      moreover have "\<not> P (last (c # takeWhile P cs @ pre))"
        using ne d(4) by simp
      ultimately show ?thesis
        using d(2,3,5) by blast
    qed
  qed
qed

lemma maximal_runs_complete:
  "xs = pre @ r @ post \<Longrightarrow> r \<noteq> [] \<Longrightarrow> (\<And>c. c \<in> set r \<Longrightarrow> P c) \<Longrightarrow>
   pre = [] \<or> \<not> P (last pre) \<Longrightarrow> post = [] \<or> \<not> P (hd post) \<Longrightarrow>
   r \<in> set (maximal_runs P xs)"
proof (induction P xs arbitrary: pre rule: maximal_runs.induct)
  case (1 P)
  then show ?case
    by simp
next
  case (2 P c cs)
  show ?case
  proof (cases pre)
    case Nil
    with "2.prems"(1,2) have c: "P c"
      using "2.prems"(3) by (cases r) auto
    from Nil "2.prems" have "takeWhile P (c # cs) = r"
      using takeWhile_run(1) [of r P post] by simp
    with c show ?thesis
      by simp
  next
    case (Cons p pre')
    with "2.prems"(1) have p: "p = c" and cs: "cs = pre' @ r @ post"
      by simp_all
    from Cons "2.prems"(4) have last: "\<not> P (last (p # pre'))"
      by simp
    show ?thesis
    proof (cases "P c")
      case False
      from last Cons have "pre' = [] \<or> \<not> P (last pre')"
        by (cases pre') auto
      with "2.IH"(2) [OF False cs "2.prems"(2,3) _ "2.prems"(5)]
      have "r \<in> set (maximal_runs P cs)"
        by blast
      with False show ?thesis
        by simp
    next
      case True
      with last p have ne: "pre' \<noteq> []"
        by auto
      with last have lp: "\<not> P (last pre')"
        by simp
      with ne have "last pre' \<in> set pre'" 
        by simp
      with lp have "dropWhile P (pre' @ r @ post) = dropWhile P pre' @ r @ post"
        by (intro dropWhile_append1)
      with cs have d: "dropWhile P cs = dropWhile P pre' @ r @ post"
        by simp
      from \<open>last pre' \<in> set pre'\<close> lp have "dropWhile P pre' \<noteq> []"
        by (auto simp: dropWhile_eq_Nil_conv)
      then have "last (dropWhile P pre') = last pre'"
        by (rule last_dropWhile)
      with lp have "dropWhile P pre' = [] \<or> \<not> P (last (dropWhile P pre'))"
        by simp
      with "2.IH"(1) [OF True d "2.prems"(2,3) _ "2.prems"(5)]
      have "r \<in> set (maximal_runs P (dropWhile P cs))"
        by blast
      with True show ?thesis
        by simp
    qed
  qed
qed

lemma finditer_runs:
  "MATH_RE_finditer h text =
     filter (\<lambda>r. 3 \<le> length r) (maximal_runs (MATH_RE_class h) text)"
proof (induction h "text" rule: MATH_RE_finditer.induct)
  case (1 h)
  show ?case
    by simp
next
  case (2 h c cs)
  let ?P = "MATH_RE_class h"
  let ?run = "takeWhile ?P (c # cs)"
  show ?case
  proof (cases "3 \<le> length ?run")
    case True
    then have c: "?P c"
      by (cases "?P c") auto
    have "drop (length ?run) (c # cs) = dropWhile ?P (c # cs)"
      by (rule dropWhile_eq_drop [symmetric])
    also have "\<dots> = dropWhile ?P cs"
      using c by simp
    finally have d: "drop (length ?run) (c # cs) = dropWhile ?P cs" .
    from "2.IH"(1) [OF refl True] d
    have "MATH_RE_finditer h (drop (length ?run) (c # cs))
            = filter (\<lambda>r. 3 \<le> length r) (maximal_runs ?P (dropWhile ?P cs))"
      by simp
    moreover have "MATH_RE_finditer h (c # cs)
            = ?run # MATH_RE_finditer h (drop (length ?run) (c # cs))"
      using True by (simp add: Let_def del: drop_Suc_Cons)
    moreover have "maximal_runs ?P (c # cs) = ?run # maximal_runs ?P (dropWhile ?P cs)"
      using c by simp
    ultimately show ?thesis
      using True by simp
  next
    case False
    from "2.IH"(2) [OF refl False]
    have ih: "MATH_RE_finditer h cs = filter (\<lambda>r. 3 \<le> length r) (maximal_runs ?P cs)" .
    have f: "MATH_RE_finditer h (c # cs) = MATH_RE_finditer h cs"
      using False by (simp add: Let_def)
    show ?thesis
    proof (cases "?P c")
      case c: False
      with f ih show ?thesis
        by simp
    next
      case c: True
      with False have short: "\<not> 3 \<le> length (takeWhile ?P cs)"
        by simp
      have "filter (\<lambda>r. 3 \<le> length r) (maximal_runs ?P cs)
              = filter (\<lambda>r. 3 \<le> length r) (maximal_runs ?P (dropWhile ?P cs))"
        using short by (subst maximal_runs_unfold) simp
      moreover have "filter (\<lambda>r. 3 \<le> length r) (maximal_runs ?P (c # cs))
              = filter (\<lambda>r. 3 \<le> length r) (maximal_runs ?P (dropWhile ?P cs))"
        using False c by simp
      ultimately show ?thesis
        using f ih by simp
    qed
  qed
qed

lemma find_in_map:
  "List.find Q (map f xs) = map_option f (List.find (\<lambda>x. Q (f x)) xs)"
  by (induction xs) auto

lemma extract_closed_form:
  "extract_math_expression h text =
     map_option (\<lambda>r. py_strip_chars (lit '' .,:;!?'') (py_strip r))
       (List.find (\<lambda>r. looks_like_math h (py_strip r))
          (filter (\<lambda>r. 3 \<le> length r) (maximal_runs (MATH_RE_class h) text)))"
  by (simp add: extract_math_expression_def Let_def find_in_map finditer_runs
        split: option.split)

text \<open>
  Claim C4, amended.  The matches of \<open>_MATH_RE\<close> are the maximal runs of class
  characters (digits, \<open>+ - * / ( ) .\<close> and white space) that have at least three
  characters, from left to right; a maximal run is a block of class characters, not
  empty, with no class character before it and none behind it.  \<open>extract_math_expression\<close>
  takes the first of them that, stripped of white space, holds a digit and one of
  \<open>+ - * /\<close>, and returns it stripped twice: of white space first, then of the
  characters space, \<open>. , : ; ! ?\<close>; white space that the second pass lays bare stays.
  When no run qualifies there is no candidate.  On \<open>What is (12*7)/3?\<close> the candidate is
  \<open>(12*7)/3\<close> on every host, and \<open>safe_calc\<close> answers \<open>28\<close> for it on every host that
  reads it as the quotient of the product of 12 and 7 by 3, divides 84 by 3 to a float
  that rounds to 28 and is nearer to 28 than \<open>1e-12\<close>.
\<close>

theorem extract_math_expression_first_run:
  "MATH_RE_finditer h text =
     filter (\<lambda>r. 3 \<le> length r) (maximal_runs (MATH_RE_class h) text)
   \<and> (r \<in> set (maximal_runs P text) \<longleftrightarrow>
        (\<exists>pre post. text = pre @ r @ post \<and> r \<noteq> [] \<and> list_all P r
           \<and> (pre = [] \<or> \<not> P (last pre)) \<and> (post = [] \<or> \<not> P (hd post))))
   \<and> extract_math_expression h text =
       map_option (\<lambda>r. py_strip_chars (lit '' .,:;!?'') (py_strip r))
         (List.find (\<lambda>r. looks_like_math h (py_strip r))
            (filter (\<lambda>r. 3 \<le> length r) (maximal_runs (MATH_RE_class h) text)))
   \<and> extract_math_expression h (lit ''What is (12*7)/3?'') = Some (lit ''(12*7)/3'')
   \<and> (ast_parse h (lit ''(12*7)/3'')
         = Inr (Expression (BinOp (BinOp (Constant (CInt 12)) Mult (Constant (CInt 7))) Div
                  (Constant (CInt 3))))
        \<and> int_truediv h 84 3 = Inr x \<and> float_round h x = Inr 28 \<and> float_near h x 28 \<longrightarrow>
      safe_calc h (lit ''(12*7)/3'') = lit ''28'')"
proof (intro conjI impI)
  show "MATH_RE_finditer h text =
     filter (\<lambda>r. 3 \<le> length r) (maximal_runs (MATH_RE_class h) text)"
    by (rule finditer_runs)
  show "r \<in> set (maximal_runs P text) \<longleftrightarrow>
        (\<exists>pre post. text = pre @ r @ post \<and> r \<noteq> [] \<and> list_all P r
           \<and> (pre = [] \<or> \<not> P (last pre)) \<and> (post = [] \<or> \<not> P (hd post)))"
  proof
    assume "r \<in> set (maximal_runs P text)"
    from maximal_runs_sound [OF this] show "\<exists>pre post. text = pre @ r @ post \<and> r \<noteq> []
        \<and> list_all P r \<and> (pre = [] \<or> \<not> P (last pre)) \<and> (post = [] \<or> \<not> P (hd post))"
      by (simp add: list_all_iff)
  next
    assume "\<exists>pre post. text = pre @ r @ post \<and> r \<noteq> [] \<and> list_all P r
        \<and> (pre = [] \<or> \<not> P (last pre)) \<and> (post = [] \<or> \<not> P (hd post))"
    then obtain pre post where d: "text = pre @ r @ post" "r \<noteq> []" "list_all P r"
      "pre = [] \<or> \<not> P (last pre)" "post = [] \<or> \<not> P (hd post)"
      by blast
    from d(3) have "\<And>c. c \<in> set r \<Longrightarrow> P c"
      by (simp add: list_all_iff)
    with d(1,2) show "r \<in> set (maximal_runs P text)"
      using d(4,5) by (rule maximal_runs_complete)
  qed
  show "extract_math_expression h text =
       map_option (\<lambda>r. py_strip_chars (lit '' .,:;!?'') (py_strip r))
         (List.find (\<lambda>r. looks_like_math h (py_strip r))
            (filter (\<lambda>r. 3 \<le> length r) (maximal_runs (MATH_RE_class h) text)))"
    by (rule extract_closed_form)
  show "extract_math_expression h (lit ''What is (12*7)/3?'') = Some (lit ''(12*7)/3'')"
    by (simp add: extract_math_expression_def looks_like_math_def MATH_RE_class_def
          py_isdecimal_def py_isdigit_def digit_value_def string_eval Let_def)
  show "safe_calc h (lit ''(12*7)/3'') = lit ''28''"
    if "ast_parse h (lit ''(12*7)/3'')
         = Inr (Expression (BinOp (BinOp (Constant (CInt 12)) Mult (Constant (CInt 7))) Div
                  (Constant (CInt 3))))
        \<and> int_truediv h 84 3 = Inr x \<and> float_round h x = Inr 28 \<and> float_near h x 28"
  proof -
    have "py_strip (lit ''(12*7)/3'') = lit ''(12*7)/3''"
      by (simp add: string_eval)
    moreover have "length (lit ''(12*7)/3'') \<le> 200"
      by (simp add: lit_def)
    moreover have "str_int 28 = lit ''28''"
      by (simp add: str_int_def nat_digits.simps lit_def)
    ultimately show ?thesis
      using that
      by (simp add: safe_calc_def calc_outcome_def Let_def apply_binary_def int_binop_def)
  qed
qed

text \<open>The example on the reference host, and the run \<open>1+2\<close> of the text \<open>a1+2b\<close>.\<close>

theorem extract_math_expression_first_run_witness:
  "ast_parse exact_host (lit ''(12*7)/3'')
     = Inr (Expression (BinOp (BinOp (Constant (CInt 12)) Mult (Constant (CInt 7))) Div
              (Constant (CInt 3))))
   \<and> int_truediv exact_host 84 3 = Inr 28 \<and> float_round exact_host 28 = Inr 28
   \<and> float_near exact_host 28 28
   \<and> extract_math_expression exact_host (lit ''What is (12*7)/3?'') = Some (lit ''(12*7)/3'')
   \<and> safe_calc exact_host (lit ''(12*7)/3'') = lit ''28''
   \<and> lit ''1+2'' \<in> set (maximal_runs (MATH_RE_class exact_host) (lit ''a1+2b''))"
proof -
  have p: "ast_parse exact_host (lit ''(12*7)/3'')
     = Inr (Expression (BinOp (BinOp (Constant (CInt 12)) Mult (Constant (CInt 7))) Div
              (Constant (CInt 3))))"
    by (simp add: exact_host_def parser_eval)
  have d: "int_truediv exact_host 84 3 = Inr 28" "float_round exact_host 28 = Inr 28"
    "float_near exact_host 28 28"
    by (simp_all add: exact_host_def exact_int_truediv_def float_max_bound_def
          round_half_even_def)
  note T = extract_math_expression_first_run
    [of exact_host "lit ''a1+2b''" "lit ''1+2''" "MATH_RE_class exact_host" 28]
  from T [THEN conjunct2, THEN conjunct2, THEN conjunct2, THEN conjunct1]
  have e: "extract_math_expression exact_host (lit ''What is (12*7)/3?'') = Some (lit ''(12*7)/3'')" .
  from T [THEN conjunct2, THEN conjunct2, THEN conjunct2, THEN conjunct2, THEN mp,
      OF conjI [OF p conjI [OF d(1) conjI [OF d(2) d(3)]]]]
  have s: "safe_calc exact_host (lit ''(12*7)/3'') = lit ''28''" .
  have "lit ''a1+2b'' = lit ''a'' @ lit ''1+2'' @ lit ''b'' \<and> lit ''1+2'' \<noteq> []
      \<and> list_all (MATH_RE_class exact_host) (lit ''1+2'')
      \<and> (lit ''a'' = [] \<or> \<not> MATH_RE_class exact_host (last (lit ''a'')))
      \<and> (lit ''b'' = [] \<or> \<not> MATH_RE_class exact_host (hd (lit ''b'')))"
    by (simp add: lit_def MATH_RE_class_def py_isdecimal_def digit_value_def py_isspace_def
          exact_host_def)
  with T [THEN conjunct2, THEN conjunct1]
  have m: "lit ''1+2'' \<in> set (maximal_runs (MATH_RE_class exact_host) (lit ''a1+2b''))"
    by blast
  from p d e s m show ?thesis
    by (intro conjI)
qed

text \<open>
  On a full stop, a tab and \<open>1+2\<close> the candidate begins with the tab: the first pass
  finds no white space at the ends, and the second removes the full stop only.
\<close>

theorem tab_left_by_trimming_counterexample:
  "extract_math_expression exact_host ([46, 9] @ lit ''1+2'') = Some ([9] @ lit ''1+2'')
   \<and> py_isspace (hd ([9] @ lit ''1+2''))"
  by (simp add: extract_eval)

end
